theory Spec2Isabelle
  imports Main "HOL-Library.AList"
begin

section \<open>JavaScript values\<close>

text \<open>
  The argument bundles of the tools (\<open>data\<close>, \<open>params\<close>) are open records
  (\<open>z.record(z.any())\<close>).  A bundle is an association list from field names to values, in
  the order of its keys; the fields the interfaces of \<open>types.ts\<close> declare are all
  scalars, and so are the values here.  Numbers are whole numbers (identifiers, orders).
\<close>

datatype jsval = JUndefined | JNull | JBool bool | JNum int | JStr string

type_synonym jsobj = "(string \<times> jsval) list"

text \<open>\<open>!!v\<close>: what an \<open>if (v)\<close> tests.\<close>

fun truthy :: "jsval \<Rightarrow> bool" where
  "truthy JUndefined = False"
| "truthy JNull = False"
| "truthy (JBool b) = b"
| "truthy (JNum n) = (n \<noteq> 0)"
| "truthy (JStr s) = (s \<noteq> [])"

text \<open>\<open>obj.k\<close>: a field that is not there reads as \<open>undefined\<close>.\<close>

definition field :: "jsobj \<Rightarrow> string \<Rightarrow> jsval" where
  "field obj k = (case map_of obj k of None \<Rightarrow> JUndefined | Some v \<Rightarrow> v)"

text \<open>\<open>a ?? b\<close>.\<close>

definition nullish :: "jsval \<Rightarrow> jsval \<Rightarrow> jsval" where
  "nullish a b = (if a = JUndefined \<or> a = JNull then b else a)"

text \<open>An optional numeric argument (\<open>boardId?: number\<close>) as a value.\<close>

definition of_num :: "int option \<Rightarrow> jsval" where
  "of_num x = (case x of None \<Rightarrow> JUndefined | Some n \<Rightarrow> JNum n)"

text \<open>\<open>{ ...obj, k: v }\<close> is \<open>AList.update k v obj\<close>; the rest pattern
  \<open>const { k1, k2, ...rest } = obj\<close> leaves \<open>omit [k1, k2] obj\<close>.\<close>

definition omit :: "string list \<Rightarrow> jsobj \<Rightarrow> jsobj" where
  "omit ks obj = filter (\<lambda>(k, v). k \<notin> set ks) obj"

text \<open>\<open>JSON.stringify\<close> leaves out the fields whose value is \<open>undefined\<close>.\<close>

definition stringify :: "jsobj \<Rightarrow> jsobj" where
  "stringify obj = filter (\<lambda>(k, v). v \<noteq> JUndefined) obj"

subsection \<open>Strings\<close>

definition digit :: "nat \<Rightarrow> char" where
  "digit n = ''0123456789'' ! n"

fun show_nat :: "nat \<Rightarrow> string" where
  "show_nat n = (if n < 10 then [digit n] else show_nat (n div 10) @ [digit (n mod 10)])"

declare show_nat.simps [simp del]

definition show_int :: "int \<Rightarrow> string" where
  "show_int i = (if i < 0 then CHR ''-'' # show_nat (nat (- i)) else show_nat (nat i))"

text \<open>A value inside a template literal \<open>`${v}`\<close>.\<close>

fun template :: "jsval \<Rightarrow> string" where
  "template JUndefined = ''undefined''"
| "template JNull = ''null''"
| "template (JBool b) = (if b then ''true'' else ''false'')"
| "template (JNum n) = show_int n"
| "template (JStr s) = s"

text \<open>\<open>s.includes(sub)\<close>.\<close>

fun includes_str :: "string \<Rightarrow> string \<Rightarrow> bool" where
  "includes_str [] sub = (sub = [])"
| "includes_str (c # cs) sub = (take (length sub) (c # cs) = sub \<or> includes_str cs sub)"

text \<open>
  \<open>s.toLowerCase()\<close> is the library's function, with the lower-casing of every
  alphabet; it is not redefined here.  The definitions that call it take it as the
  parameter \<open>toLowerCase\<close>, and what is proved of them holds for every such function.
\<close>

section \<open>The remote API and the calls sent to it\<close>

record call =
  c_method :: string
  c_url :: string
  c_headers :: "(string \<times> string) list"
  c_body :: "jsobj option"

record DeckLabel =
  l_id :: int
  l_title :: string
  l_color :: string

record DeckCard =
  k_id :: int
  k_title :: string
  k_description :: "string option"
  k_stackId :: int
  k_archived :: bool
  k_done :: "bool option"

record DeckStack =
  s_id :: int
  s_title :: string
  s_boardId :: int
  s_cards :: "DeckCard list option"

record DeckBoard =
  b_id :: int
  b_title :: string
  b_labels :: "DeckLabel list option"

record DeckComment =
  m_id :: int
  m_message :: string

record DeckAttachment =
  t_id :: int
  t_cardId :: int
  t_data :: string

text \<open>
  What \<open>response.json()\<close> yields, by the shape the interfaces of \<open>types.ts\<close> declare
  for each endpoint.  The client casts a reply to the declared type without a check; where
  it goes on to iterate a reply that is not the declared list, the model stops with
  \<open>TypeError\<close>.
\<close>

datatype payload =
    PNull
  | PUndefined
  | PBoards "DeckBoard list"
  | PBoard DeckBoard
  | PStacks "DeckStack list"
  | PStack DeckStack
  | PCards "DeckCard list"
  | PCard DeckCard
  | PLabels "DeckLabel list"
  | PLabel DeckLabel
  | PComments "DeckComment list"
  | PComment DeckComment
  | PAttachments "DeckAttachment list"
  | PAttachment DeckAttachment
  | POcs "payload option"

record response =
  r_status :: nat
  r_text :: string
  r_json :: "payload option"

text \<open>\<open>response.ok\<close>.\<close>

definition ok :: "response \<Rightarrow> bool" where
  "ok resp = (200 \<le> r_status resp \<and> r_status resp \<le> 299)"

text \<open>The remote system answers a call, or the fetch itself is rejected (\<open>None\<close>).\<close>

type_synonym remote = "call \<Rightarrow> response option"

text \<open>
  Every \<open>throw new Error(message)\<close> of the source, tagged by the kind of its throw site
  (the kinds of the specification, and \<open>UnknownEntity\<close> for the default branches of the
  handlers); the constructors carry the message.  \<open>FetchFailed\<close> is a rejected
  \<open>fetch\<close>, \<open>SyntaxError\<close> a reply that \<open>response.json()\<close> cannot parse,
  \<open>TypeError\<close> a reply of another shape than the declared one.
\<close>

datatype error =
    MissingParameter string
  | NotFound string
  | RemoteError string
  | UnsupportedAction string
  | UnknownEntity string
  | FetchFailed
  | SyntaxError
  | TypeError

text \<open>
  An asynchronous computation: the calls it sent, in order, and its outcome.  An
  \<open>await\<close> is \<open>bind_io\<close>: an error ends the computation where it is thrown.
\<close>

type_synonym 'a io = "call list \<times> (error + 'a)"

definition return_io :: "'a \<Rightarrow> 'a io" where
  "return_io x = ([], Inr x)"

definition throw :: "error \<Rightarrow> 'a io" where
  "throw e = ([], Inl e)"

definition bind_io :: "'a io \<Rightarrow> ('a \<Rightarrow> 'b io) \<Rightarrow> 'b io" where
  "bind_io m f =
     (case snd m of
        Inl e \<Rightarrow> (fst m, Inl e)
      | Inr x \<Rightarrow> (fst m @ fst (f x), snd (f x)))"

section \<open>The client (deck-client.ts)\<close>

record DeckClient =
  baseUrl :: string
  auth :: string

definition api_call :: "DeckClient \<Rightarrow> string \<Rightarrow> string \<Rightarrow> jsobj option \<Rightarrow> call" where
  "api_call c m endpoint body =
     \<lparr> c_method = m,
       c_url = baseUrl c @ ''/index.php/apps/deck/api/v1.0'' @ endpoint,
       c_headers = [(''Authorization'', auth c), (''Content-Type'', ''application/json''),
                    (''OCS-APIRequest'', ''true'')],
       c_body = map_option stringify body \<rparr>"

definition request :: "DeckClient \<Rightarrow> remote \<Rightarrow> string \<Rightarrow> string \<Rightarrow> jsobj option \<Rightarrow> payload io" where
  "request c r m endpoint body =
     ([api_call c m endpoint body],
      case r (api_call c m endpoint body) of
        None \<Rightarrow> Inl FetchFailed
      | Some resp \<Rightarrow>
          if \<not> ok resp
          then Inl (RemoteError (''Deck API Error ('' @ show_nat (r_status resp) @ ''): '' @ r_text resp))
          else (case r_json resp of None \<Rightarrow> Inl SyntaxError | Some p \<Rightarrow> Inr p))"

subsection \<open>Boards\<close>

definition getBoards :: "DeckClient \<Rightarrow> remote \<Rightarrow> payload io" where
  "getBoards c r = request c r ''GET'' ''/boards'' None"

definition getBoard :: "DeckClient \<Rightarrow> remote \<Rightarrow> int \<Rightarrow> payload io" where
  "getBoard c r i = request c r ''GET'' (''/boards/'' @ show_int i) None"

definition createBoard :: "DeckClient \<Rightarrow> remote \<Rightarrow> jsobj \<Rightarrow> payload io" where
  "createBoard c r d = request c r ''POST'' ''/boards'' (Some d)"

definition updateBoard :: "DeckClient \<Rightarrow> remote \<Rightarrow> int \<Rightarrow> jsobj \<Rightarrow> payload io" where
  "updateBoard c r i d = request c r ''PUT'' (''/boards/'' @ show_int i) (Some d)"

definition deleteBoard :: "DeckClient \<Rightarrow> remote \<Rightarrow> int \<Rightarrow> unit io" where
  "deleteBoard c r i =
     bind_io (request c r ''DELETE'' (''/boards/'' @ show_int i) None) (\<lambda>_. return_io ())"

subsection \<open>Stacks\<close>

definition getStacks :: "DeckClient \<Rightarrow> remote \<Rightarrow> int \<Rightarrow> payload io" where
  "getStacks c r boardId = request c r ''GET'' (''/boards/'' @ show_int boardId @ ''/stacks'') None"

definition getStack :: "DeckClient \<Rightarrow> remote \<Rightarrow> int \<Rightarrow> int \<Rightarrow> payload io" where
  "getStack c r boardId stackId =
     bind_io (getStacks c r boardId) (\<lambda>p.
       case p of
         PStacks stacks \<Rightarrow>
           (case find (\<lambda>s. s_id s = stackId) stacks of
              None \<Rightarrow> throw (NotFound (''Stack '' @ show_int stackId @ '' not found in board ''
                                        @ show_int boardId))
            | Some s \<Rightarrow> return_io (PStack s))
       | _ \<Rightarrow> throw TypeError)"

definition createStack :: "DeckClient \<Rightarrow> remote \<Rightarrow> jsobj \<Rightarrow> payload io" where
  "createStack c r d =
     request c r ''POST'' (''/boards/'' @ template (field d ''boardId'') @ ''/stacks'')
       (Some [(''title'', field d ''title''),
              (''order'', nullish (field d ''order'') (JNum 999))])"

definition updateStack :: "DeckClient \<Rightarrow> remote \<Rightarrow> int \<Rightarrow> int \<Rightarrow> jsobj \<Rightarrow> payload io" where
  "updateStack c r boardId stackId d =
     request c r ''PUT'' (''/boards/'' @ show_int boardId @ ''/stacks/'' @ show_int stackId) (Some d)"

definition deleteStack :: "DeckClient \<Rightarrow> remote \<Rightarrow> int \<Rightarrow> int \<Rightarrow> unit io" where
  "deleteStack c r boardId stackId =
     bind_io (request c r ''DELETE'' (''/boards/'' @ show_int boardId @ ''/stacks/'' @ show_int stackId) None)
       (\<lambda>_. return_io ())"

subsection \<open>Cards\<close>

text \<open>\<open>getCards\<close> reads the stack and returns \<open>response.cards || []\<close>.\<close>

definition getCards :: "DeckClient \<Rightarrow> remote \<Rightarrow> int \<Rightarrow> DeckCard list io" where
  "getCards c r stackId =
     bind_io (request c r ''GET'' (''/stacks/'' @ show_int stackId) None) (\<lambda>p.
       case p of
         PStack s \<Rightarrow> return_io (case s_cards s of None \<Rightarrow> [] | Some cs \<Rightarrow> cs)
       | PNull \<Rightarrow> throw TypeError
       | PUndefined \<Rightarrow> throw TypeError
       | _ \<Rightarrow> return_io [])"

definition getCard :: "DeckClient \<Rightarrow> remote \<Rightarrow> int \<Rightarrow> payload io" where
  "getCard c r cardId = request c r ''GET'' (''/cards/'' @ show_int cardId) None"

text \<open>
  The loop of \<open>createCard\<close> over the boards: the first board one of whose stacks has
  the id \<open>data.stackId\<close> gives \<open>boardId\<close>.
\<close>

fun findBoardOfStack :: "DeckClient \<Rightarrow> remote \<Rightarrow> jsval \<Rightarrow> DeckBoard list \<Rightarrow> jsval \<Rightarrow> jsval io" where
  "findBoardOfStack c r stackId [] boardId = return_io boardId"
| "findBoardOfStack c r stackId (board # boards) boardId =
     bind_io (getStacks c r (b_id board)) (\<lambda>p.
       case p of
         PStacks stacks \<Rightarrow>
           (case find (\<lambda>s. JNum (s_id s) = stackId) stacks of
              Some s \<Rightarrow> return_io (JNum (b_id board))
            | None \<Rightarrow> findBoardOfStack c r stackId boards boardId)
       | _ \<Rightarrow> throw TypeError)"

text \<open>Lines 148 to 162 of \<open>createCard\<close>: the board of the stack, looked up.\<close>

definition resolveBoard :: "DeckClient \<Rightarrow> remote \<Rightarrow> jsobj \<Rightarrow> jsval io" where
  "resolveBoard c r d =
     bind_io (getBoards c r) (\<lambda>p.
       case p of
         PBoards boards \<Rightarrow>
           bind_io (findBoardOfStack c r (field d ''stackId'') boards (field d ''boardId''))
             (\<lambda>boardId.
                if \<not> truthy boardId
                then throw (NotFound (''Stack '' @ template (field d ''stackId'') @ '' not found in any board''))
                else return_io boardId)
       | _ \<Rightarrow> throw TypeError)"

definition createCard :: "DeckClient \<Rightarrow> remote \<Rightarrow> jsobj \<Rightarrow> payload io" where
  "createCard c r d =
     bind_io (if \<not> truthy (field d ''boardId'') then resolveBoard c r d
              else return_io (field d ''boardId''))
       (\<lambda>boardId.
          request c r ''POST''
            (''/boards/'' @ template boardId @ ''/stacks/'' @ template (field d ''stackId'') @ ''/cards'')
            (Some [(''title'', field d ''title''),
                   (''type'', nullish (field d ''type'') (JStr ''plain'')),
                   (''order'', nullish (field d ''order'') (JNum 999)),
                   (''description'', nullish (field d ''description'') (JStr [])),
                   (''duedate'', nullish (field d ''duedate'') JNull)]))"

text \<open>\<open>stack.cards\<close> is there and \<open>stack.cards.find(c => c.id === cardId)\<close> finds a card.\<close>

definition holdsCard :: "jsval \<Rightarrow> DeckStack \<Rightarrow> bool" where
  "holdsCard cardId stack =
     (case s_cards stack of
        None \<Rightarrow> False
      | Some cards \<Rightarrow> find (\<lambda>k. JNum (k_id k) = cardId) cards \<noteq> None)"

text \<open>
  The inner loop of \<open>updateCard\<close> and \<open>deleteCard\<close> over the stacks of one board; the
  pair is the variables \<open>(boardId, stackId)\<close>.
\<close>

fun findInStacks :: "jsval \<Rightarrow> int \<Rightarrow> DeckStack list \<Rightarrow> jsval \<times> jsval \<Rightarrow> jsval \<times> jsval" where
  "findInStacks cardId bid [] vars = vars"
| "findInStacks cardId bid (stack # stacks) vars =
     (if holdsCard cardId stack then (JNum bid, JNum (s_id stack))
      else findInStacks cardId bid stacks vars)"

text \<open>The outer loop over the boards, left by \<open>if (boardId && stackId) break\<close>.\<close>

fun findInBoards :: "DeckClient \<Rightarrow> remote \<Rightarrow> jsval \<Rightarrow> DeckBoard list \<Rightarrow> jsval \<times> jsval \<Rightarrow> (jsval \<times> jsval) io" where
  "findInBoards c r cardId [] vars = return_io vars"
| "findInBoards c r cardId (board # boards) vars =
     bind_io (getStacks c r (b_id board)) (\<lambda>p.
       case p of
         PStacks stacks \<Rightarrow>
           (let vars' = findInStacks cardId (b_id board) stacks vars
            in if truthy (fst vars') \<and> truthy (snd vars') then return_io vars'
               else findInBoards c r cardId boards vars')
       | _ \<Rightarrow> throw TypeError)"

text \<open>
  Lines 180 to 198 of \<open>updateCard\<close> and 210 to 228 of \<open>deleteCard\<close>, the same text in
  both: the board and the stack of the card, looked up.
\<close>

definition resolveCard :: "DeckClient \<Rightarrow> remote \<Rightarrow> jsval \<Rightarrow> jsval \<times> jsval \<Rightarrow> (jsval \<times> jsval) io" where
  "resolveCard c r cardId vars =
     bind_io (getBoards c r) (\<lambda>p.
       case p of
         PBoards boards \<Rightarrow>
           bind_io (findInBoards c r cardId boards vars) (\<lambda>vars'.
             if \<not> truthy (fst vars') \<or> \<not> truthy (snd vars')
             then throw (NotFound (''Card '' @ template cardId @ '' not found in any board''))
             else return_io vars')
       | _ \<Rightarrow> throw TypeError)"

definition updateCard :: "DeckClient \<Rightarrow> remote \<Rightarrow> jsobj \<Rightarrow> payload io" where
  "updateCard c r d =
     bind_io (if \<not> truthy (field d ''boardId'') \<or> \<not> truthy (field d ''stackId'')
              then resolveCard c r (field d ''cardId'') (field d ''boardId'', field d ''stackId'')
              else return_io (field d ''boardId'', field d ''stackId''))
       (\<lambda>vars.
          request c r ''PUT''
            (''/boards/'' @ template (fst vars) @ ''/stacks/'' @ template (snd vars)
               @ ''/cards/'' @ template (field d ''cardId''))
            (Some (omit [''cardId'', ''boardId''] d)))"

definition deleteCard :: "DeckClient \<Rightarrow> remote \<Rightarrow> int \<Rightarrow> int option \<Rightarrow> int option \<Rightarrow> unit io" where
  "deleteCard c r cardId boardId stackId =
     bind_io (if \<not> truthy (of_num boardId) \<or> \<not> truthy (of_num stackId)
              then resolveCard c r (JNum cardId) (of_num boardId, of_num stackId)
              else return_io (of_num boardId, of_num stackId))
       (\<lambda>vars.
          bind_io (request c r ''DELETE''
                     (''/boards/'' @ template (fst vars) @ ''/stacks/'' @ template (snd vars)
                        @ ''/cards/'' @ show_int cardId) None)
            (\<lambda>_. return_io ()))"

subsection \<open>Labels\<close>

text \<open>\<open>getLabels\<close> reads the board and returns \<open>board.labels || []\<close>.\<close>

definition getLabels :: "DeckClient \<Rightarrow> remote \<Rightarrow> int \<Rightarrow> DeckLabel list io" where
  "getLabels c r boardId =
     bind_io (getBoard c r boardId) (\<lambda>p.
       case p of
         PBoard b \<Rightarrow> return_io (case b_labels b of None \<Rightarrow> [] | Some ls \<Rightarrow> ls)
       | PNull \<Rightarrow> throw TypeError
       | PUndefined \<Rightarrow> throw TypeError
       | _ \<Rightarrow> return_io [])"

definition createLabel :: "DeckClient \<Rightarrow> remote \<Rightarrow> jsobj \<Rightarrow> payload io" where
  "createLabel c r d =
     request c r ''POST'' (''/boards/'' @ template (field d ''boardId'') @ ''/labels'')
       (Some [(''title'', field d ''title''), (''color'', field d ''color'')])"

definition updateLabel :: "DeckClient \<Rightarrow> remote \<Rightarrow> int \<Rightarrow> int \<Rightarrow> jsobj \<Rightarrow> payload io" where
  "updateLabel c r boardId labelId d =
     request c r ''PUT'' (''/boards/'' @ show_int boardId @ ''/labels/'' @ show_int labelId) (Some d)"

definition deleteLabel :: "DeckClient \<Rightarrow> remote \<Rightarrow> int \<Rightarrow> int \<Rightarrow> unit io" where
  "deleteLabel c r boardId labelId =
     bind_io (request c r ''DELETE'' (''/boards/'' @ show_int boardId @ ''/labels/'' @ show_int labelId) None)
       (\<lambda>_. return_io ())"

subsection \<open>Comments\<close>

text \<open>
  The comment operations do not go through \<open>request\<close>: each calls \<open>fetch\<close> itself, on
  a URL outside the \<open>api/v1.0\<close> prefix, and throws a message of its own.
\<close>

definition comments_call :: "DeckClient \<Rightarrow> string \<Rightarrow> string \<Rightarrow> bool \<Rightarrow> jsobj option \<Rightarrow> call" where
  "comments_call c m path json_type body =
     \<lparr> c_method = m,
       c_url = baseUrl c @ ''/index.php/apps/deck/cards/'' @ path,
       c_headers = (if json_type
                    then [(''Authorization'', auth c), (''Content-Type'', ''application/json''),
                          (''OCS-APIRequest'', ''true'')]
                    else [(''Authorization'', auth c), (''OCS-APIRequest'', ''true'')]),
       c_body = map_option stringify body \<rparr>"

definition getComments :: "DeckClient \<Rightarrow> remote \<Rightarrow> int \<Rightarrow> payload io" where
  "getComments c r cardId =
     (let cl = comments_call c ''GET'' (show_int cardId @ ''/comments'') False None
      in ([cl],
          case r cl of
            None \<Rightarrow> Inl FetchFailed
          | Some resp \<Rightarrow>
              if \<not> ok resp
              then Inl (RemoteError (''Failed to get comments: '' @ show_nat (r_status resp)))
              else (case r_json resp of
                      None \<Rightarrow> Inl SyntaxError
                    | Some PNull \<Rightarrow> Inl TypeError
                    | Some PUndefined \<Rightarrow> Inl TypeError
                    | Some (POcs (Some d)) \<Rightarrow>
                        Inr (if d = PNull \<or> d = PUndefined then PComments [] else d)
                    | Some _ \<Rightarrow> Inr (PComments []))))"

definition createComment :: "DeckClient \<Rightarrow> remote \<Rightarrow> jsobj \<Rightarrow> payload io" where
  "createComment c r d =
     (let cl = comments_call c ''POST'' (template (field d ''cardId'') @ ''/comments'') True
                 (Some [(''message'', field d ''message'')])
      in ([cl],
          case r cl of
            None \<Rightarrow> Inl FetchFailed
          | Some resp \<Rightarrow>
              if \<not> ok resp
              then Inl (RemoteError (''Failed to create comment: '' @ show_nat (r_status resp)))
              else (case r_json resp of
                      None \<Rightarrow> Inl SyntaxError
                    | Some PNull \<Rightarrow> Inl TypeError
                    | Some PUndefined \<Rightarrow> Inl TypeError
                    | Some (POcs (Some d)) \<Rightarrow> Inr d
                    | Some _ \<Rightarrow> Inr PUndefined)))"

definition deleteComment :: "DeckClient \<Rightarrow> remote \<Rightarrow> int \<Rightarrow> int \<Rightarrow> unit io" where
  "deleteComment c r cardId commentId =
     (let cl = comments_call c ''DELETE'' (show_int cardId @ ''/comments/'' @ show_int commentId)
                 False None
      in ([cl],
          case r cl of
            None \<Rightarrow> Inl FetchFailed
          | Some resp \<Rightarrow>
              if \<not> ok resp
              then Inl (RemoteError (''Failed to delete comment: '' @ show_nat (r_status resp)))
              else Inr ()))"

subsection \<open>Attachments\<close>

definition getAttachments :: "DeckClient \<Rightarrow> remote \<Rightarrow> int \<Rightarrow> payload io" where
  "getAttachments c r cardId =
     request c r ''GET'' (''/cards/'' @ show_int cardId @ ''/attachments'') None"

definition createAttachment :: "DeckClient \<Rightarrow> remote \<Rightarrow> jsobj \<Rightarrow> payload io" where
  "createAttachment c r d =
     request c r ''POST'' (''/cards/'' @ template (field d ''cardId'') @ ''/attachments'')
       (Some [(''type'', field d ''type''), (''data'', field d ''data'')])"

definition deleteAttachment :: "DeckClient \<Rightarrow> remote \<Rightarrow> int \<Rightarrow> int \<Rightarrow> unit io" where
  "deleteAttachment c r cardId attachmentId =
     bind_io (request c r ''DELETE''
                (''/cards/'' @ show_int cardId @ ''/attachments/'' @ show_int attachmentId) None)
       (\<lambda>_. return_io ())"

subsection \<open>Card actions\<close>

definition moveCard :: "DeckClient \<Rightarrow> remote \<Rightarrow> int \<Rightarrow> jsval \<Rightarrow> jsval \<Rightarrow> payload io" where
  "moveCard c r cardId stackId order' =
     request c r ''PUT'' (''/cards/'' @ show_int cardId @ ''/reorder'')
       (Some [(''stackId'', stackId), (''order'', nullish order' (JNum 999))])"

definition assignUser :: "DeckClient \<Rightarrow> remote \<Rightarrow> int \<Rightarrow> jsval \<Rightarrow> payload io" where
  "assignUser c r cardId userId =
     bind_io (request c r ''PUT'' (''/cards/'' @ show_int cardId @ ''/assignUser'')
                (Some [(''userId'', userId)]))
       (\<lambda>_. return_io PUndefined)"

definition unassignUser :: "DeckClient \<Rightarrow> remote \<Rightarrow> int \<Rightarrow> jsval \<Rightarrow> payload io" where
  "unassignUser c r cardId userId =
     bind_io (request c r ''PUT'' (''/cards/'' @ show_int cardId @ ''/unassignUser'')
                (Some [(''userId'', userId)]))
       (\<lambda>_. return_io PUndefined)"

definition assignLabel :: "DeckClient \<Rightarrow> remote \<Rightarrow> int \<Rightarrow> jsval \<Rightarrow> payload io" where
  "assignLabel c r cardId labelId =
     bind_io (request c r ''PUT'' (''/cards/'' @ show_int cardId @ ''/labels/'' @ template labelId) None)
       (\<lambda>_. return_io PUndefined)"

definition removeLabel :: "DeckClient \<Rightarrow> remote \<Rightarrow> int \<Rightarrow> jsval \<Rightarrow> payload io" where
  "removeLabel c r cardId labelId =
     bind_io (request c r ''DELETE'' (''/cards/'' @ show_int cardId @ ''/labels/'' @ template labelId) None)
       (\<lambda>_. return_io PUndefined)"

definition archiveCard :: "DeckClient \<Rightarrow> remote \<Rightarrow> int \<Rightarrow> payload io" where
  "archiveCard c r cardId = updateCard c r [(''cardId'', JNum cardId), (''archived'', JBool True)]"

definition unarchiveCard :: "DeckClient \<Rightarrow> remote \<Rightarrow> int \<Rightarrow> payload io" where
  "unarchiveCard c r cardId = updateCard c r [(''cardId'', JNum cardId), (''archived'', JBool False)]"

definition markCardDone :: "DeckClient \<Rightarrow> remote \<Rightarrow> int \<Rightarrow> payload io" where
  "markCardDone c r cardId = updateCard c r [(''cardId'', JNum cardId), (''done'', JBool True)]"

definition markCardUndone :: "DeckClient \<Rightarrow> remote \<Rightarrow> int \<Rightarrow> payload io" where
  "markCardUndone c r cardId = updateCard c r [(''cardId'', JNum cardId), (''done'', JBool False)]"

definition reorderCard :: "DeckClient \<Rightarrow> remote \<Rightarrow> int \<Rightarrow> jsval \<Rightarrow> jsval \<Rightarrow> payload io" where
  "reorderCard c r cardId stackId order' = moveCard c r cardId stackId order'"

subsection \<open>The action dispatcher\<close>

definition performAction :: "DeckClient \<Rightarrow> remote \<Rightarrow> string \<Rightarrow> int \<Rightarrow> string \<Rightarrow> jsobj \<Rightarrow> payload io" where
  "performAction c r entity i action params =
     (if entity = ''card'' then
        (if action = ''move'' then moveCard c r i (field params ''stackId'') (field params ''order'')
         else if action = ''assign'' then assignUser c r i (field params ''userId'')
         else if action = ''unassign'' then unassignUser c r i (field params ''userId'')
         else if action = ''add_label'' then assignLabel c r i (field params ''labelId'')
         else if action = ''remove_label'' then removeLabel c r i (field params ''labelId'')
         else if action = ''archive'' then archiveCard c r i
         else if action = ''unarchive'' then unarchiveCard c r i
         else if action = ''mark_done'' then markCardDone c r i
         else if action = ''mark_undone'' then markCardUndone c r i
         else if action = ''reorder'' then reorderCard c r i (field params ''stackId'') (field params ''order'')
         else throw (UnsupportedAction (''Unknown action: '' @ action)))
      else throw (UnsupportedAction
                    (''Actions for entity '' @ [CHR 0x22] @ entity @ [CHR 0x22] @ '' are not implemented'')))"

section \<open>The tool handlers (deck-handlers.ts)\<close>

text \<open>
  The client is built by \<open>createDeckClient\<close> from the process environment, which
  \<open>index.ts\<close> has checked at start-up; the handlers take it as a parameter.
\<close>

record DeckCreateArgs =
  cr_entity :: string
  cr_data :: jsobj

text \<open>The fields of \<open>params\<close> that \<open>handleDeckRead\<close> reads, typed as the
  \<open>Read...Params\<close> interfaces declare them.\<close>

record ReadParams =
  p_id :: "int option"
  p_boardId :: "int option"
  p_stackId :: "int option"
  p_cardId :: "int option"
  p_search :: "string option"
  p_archived :: "bool option"
  p_done :: "bool option"

record DeckReadArgs =
  rd_entity :: string
  rd_params :: "ReadParams option"

record DeckUpdateArgs =
  up_entity :: string
  up_id :: int
  up_data :: jsobj
  up_boardId :: "int option"

record DeckDeleteArgs =
  de_entity :: string
  de_id :: int
  de_boardId :: "int option"
  de_cardId :: "int option"

record DeckActionArgs =
  ac_entity :: string
  ac_id :: int
  ac_action :: string
  ac_params :: "jsobj option"

record DeleteResult =
  success :: bool
  acknowledgment :: string

text \<open>An optional number under \<open>if (x)\<close>: the number when it is there and not zero.\<close>

definition supplied :: "int option \<Rightarrow> int option" where
  "supplied x = (case x of None \<Rightarrow> None | Some n \<Rightarrow> if n \<noteq> 0 then Some n else None)"

definition no_params :: ReadParams where
  "no_params = \<lparr> p_id = None, p_boardId = None, p_stackId = None, p_cardId = None,
                  p_search = None, p_archived = None, p_done = None \<rparr>"

definition unknown_entity :: "string \<Rightarrow> 'a io" where
  "unknown_entity entity = throw (UnknownEntity (''Unknown entity type: '' @ entity))"

definition handleDeckCreate :: "DeckClient \<Rightarrow> remote \<Rightarrow> DeckCreateArgs \<Rightarrow> payload io" where
  "handleDeckCreate c r args =
     (if cr_entity args = ''board'' then createBoard c r (cr_data args)
      else if cr_entity args = ''stack'' then createStack c r (cr_data args)
      else if cr_entity args = ''card'' then createCard c r (cr_data args)
      else if cr_entity args = ''label'' then createLabel c r (cr_data args)
      else if cr_entity args = ''comment'' then createComment c r (cr_data args)
      else if cr_entity args = ''attachment'' then createAttachment c r (cr_data args)
      else unknown_entity (cr_entity args))"

text \<open>The loop of the board-wide card read: \<open>allCards.push(...cards)\<close> for each stack.\<close>

fun collectCards :: "DeckClient \<Rightarrow> remote \<Rightarrow> DeckStack list \<Rightarrow> DeckCard list \<Rightarrow> DeckCard list io" where
  "collectCards c r [] allCards = return_io allCards"
| "collectCards c r (stack # stacks) allCards =
     bind_io (getCards c r (s_id stack)) (\<lambda>cards. collectCards c r stacks (allCards @ cards))"

definition searchFilter :: "(string \<Rightarrow> string) \<Rightarrow> string \<Rightarrow> DeckCard \<Rightarrow> bool" where
  "searchFilter toLowerCase q k =
     (includes_str (toLowerCase (k_title k)) (toLowerCase q) \<or>
      (case k_description k of
         None \<Rightarrow> False
       | Some d \<Rightarrow> includes_str (toLowerCase d) (toLowerCase q)))"

definition applyFilters :: "(string \<Rightarrow> string) \<Rightarrow> ReadParams \<Rightarrow> DeckCard list \<Rightarrow> DeckCard list" where
  "applyFilters toLowerCase p allCards =
     (let filtered1 = (case p_search p of
                         None \<Rightarrow> allCards
                       | Some q \<Rightarrow> if q \<noteq> [] then filter (searchFilter toLowerCase q) allCards
                                    else allCards);
          filtered2 = (case p_archived p of
                         None \<Rightarrow> filtered1
                       | Some a \<Rightarrow> filter (\<lambda>k. k_archived k = a) filtered1);
          filtered3 = (case p_done p of
                         None \<Rightarrow> filtered2
                       | Some d \<Rightarrow> filter (\<lambda>k. k_done k = Some d) filtered2)
      in filtered3)"

definition readCards :: "(string \<Rightarrow> string) \<Rightarrow> DeckClient \<Rightarrow> remote \<Rightarrow> ReadParams \<Rightarrow> payload io" where
  "readCards toLowerCase c r p =
     (case supplied (p_stackId p) of
        Some stackId \<Rightarrow> bind_io (getCards c r stackId) (\<lambda>cards. return_io (PCards cards))
      | None \<Rightarrow>
          (case supplied (p_boardId p) of
             Some boardId \<Rightarrow>
               bind_io (getStacks c r boardId) (\<lambda>q.
                 case q of
                   PStacks stacks \<Rightarrow>
                     bind_io (collectCards c r stacks []) (\<lambda>allCards.
                       return_io (PCards (applyFilters toLowerCase p allCards)))
                 | _ \<Rightarrow> throw TypeError)
           | None \<Rightarrow> throw (MissingParameter ''Either stackId or boardId is required to get cards'')))"

definition readLabel :: "DeckClient \<Rightarrow> remote \<Rightarrow> ReadParams \<Rightarrow> payload io" where
  "readLabel c r p =
     (case (supplied (p_boardId p), supplied (p_id p)) of
        (Some boardId, Some i) \<Rightarrow>
          bind_io (getLabels c r boardId) (\<lambda>labels.
            case find (\<lambda>l. l_id l = i) labels of
              None \<Rightarrow> throw (NotFound (''Label '' @ show_int i @ '' not found''))
            | Some l \<Rightarrow> return_io (PLabel l))
      | _ \<Rightarrow> throw (MissingParameter ''Board ID and Label ID are required''))"

text \<open>\<open>args.params || {}\<close>.\<close>

definition read_params :: "DeckReadArgs \<Rightarrow> ReadParams" where
  "read_params args = (case rd_params args of None \<Rightarrow> no_params | Some q \<Rightarrow> q)"

definition handleDeckRead :: "(string \<Rightarrow> string) \<Rightarrow> DeckClient \<Rightarrow> remote \<Rightarrow> DeckReadArgs \<Rightarrow> payload io" where
  "handleDeckRead toLowerCase c r args =
     (let p = read_params args;
          entity = rd_entity args
      in if entity = ''boards'' then getBoards c r
         else if entity = ''board'' then
           (case supplied (p_id p) of
              None \<Rightarrow> throw (MissingParameter ''Board ID is required'')
            | Some i \<Rightarrow> getBoard c r i)
         else if entity = ''stacks'' then
           (case supplied (p_boardId p) of
              None \<Rightarrow> throw (MissingParameter ''Board ID is required to get stacks'')
            | Some boardId \<Rightarrow> getStacks c r boardId)
         else if entity = ''stack'' then
           (case (supplied (p_boardId p), supplied (p_id p)) of
              (Some boardId, Some i) \<Rightarrow> getStack c r boardId i
            | _ \<Rightarrow> throw (MissingParameter ''Board ID and Stack ID are required''))
         else if entity = ''cards'' then readCards toLowerCase c r p
         else if entity = ''card'' then
           (case supplied (p_id p) of
              None \<Rightarrow> throw (MissingParameter ''Card ID is required'')
            | Some i \<Rightarrow> getCard c r i)
         else if entity = ''labels'' then
           (case supplied (p_boardId p) of
              None \<Rightarrow> throw (MissingParameter ''Board ID is required to get labels'')
            | Some boardId \<Rightarrow> bind_io (getLabels c r boardId) (\<lambda>ls. return_io (PLabels ls)))
         else if entity = ''label'' then readLabel c r p
         else if entity = ''comments'' then
           (case supplied (p_cardId p) of
              None \<Rightarrow> throw (MissingParameter ''Card ID is required to get comments'')
            | Some cardId \<Rightarrow> getComments c r cardId)
         else if entity = ''attachments'' then
           (case supplied (p_cardId p) of
              None \<Rightarrow> throw (MissingParameter ''Card ID is required to get attachments'')
            | Some cardId \<Rightarrow> getAttachments c r cardId)
         else unknown_entity entity)"

definition handleDeckUpdate :: "DeckClient \<Rightarrow> remote \<Rightarrow> DeckUpdateArgs \<Rightarrow> payload io" where
  "handleDeckUpdate c r args =
     (if up_entity args = ''board'' then updateBoard c r (up_id args) (up_data args)
      else if up_entity args = ''stack'' then
        (case supplied (up_boardId args) of
           None \<Rightarrow> throw (MissingParameter ''Board ID is required to update stack'')
         | Some boardId \<Rightarrow> updateStack c r boardId (up_id args) (up_data args))
      else if up_entity args = ''card'' then
        updateCard c r (AList.update ''cardId'' (JNum (up_id args)) (up_data args))
      else if up_entity args = ''label'' then
        (case supplied (up_boardId args) of
           None \<Rightarrow> throw (MissingParameter ''Board ID is required to update label'')
         | Some boardId \<Rightarrow> updateLabel c r boardId (up_id args) (up_data args))
      else unknown_entity (up_entity args))"

definition deleted :: "string \<Rightarrow> int \<Rightarrow> DeleteResult" where
  "deleted what i = \<lparr> success = True, acknowledgment = what @ '' '' @ show_int i @ '' deleted'' \<rparr>"

definition handleDeckDelete :: "DeckClient \<Rightarrow> remote \<Rightarrow> DeckDeleteArgs \<Rightarrow> DeleteResult io" where
  "handleDeckDelete c r args =
     (if de_entity args = ''board'' then
        bind_io (deleteBoard c r (de_id args)) (\<lambda>_. return_io (deleted ''Board'' (de_id args)))
      else if de_entity args = ''stack'' then
        (case supplied (de_boardId args) of
           None \<Rightarrow> throw (MissingParameter ''Board ID is required to delete stack'')
         | Some boardId \<Rightarrow>
             bind_io (deleteStack c r boardId (de_id args))
               (\<lambda>_. return_io (deleted ''Stack'' (de_id args))))
      else if de_entity args = ''card'' then
        bind_io (deleteCard c r (de_id args) None None)
          (\<lambda>_. return_io (deleted ''Card'' (de_id args)))
      else if de_entity args = ''label'' then
        (case supplied (de_boardId args) of
           None \<Rightarrow> throw (MissingParameter ''Board ID is required to delete label'')
         | Some boardId \<Rightarrow>
             bind_io (deleteLabel c r boardId (de_id args))
               (\<lambda>_. return_io (deleted ''Label'' (de_id args))))
      else if de_entity args = ''comment'' then
        (case supplied (de_cardId args) of
           None \<Rightarrow> throw (MissingParameter ''Card ID is required to delete comment'')
         | Some cardId \<Rightarrow>
             bind_io (deleteComment c r cardId (de_id args))
               (\<lambda>_. return_io (deleted ''Comment'' (de_id args))))
      else if de_entity args = ''attachment'' then
        (case supplied (de_cardId args) of
           None \<Rightarrow> throw (MissingParameter ''Card ID is required to delete attachment'')
         | Some cardId \<Rightarrow>
             bind_io (deleteAttachment c r cardId (de_id args))
               (\<lambda>_. return_io (deleted ''Attachment'' (de_id args))))
      else unknown_entity (de_entity args))"

definition handleDeckAction :: "DeckClient \<Rightarrow> remote \<Rightarrow> DeckActionArgs \<Rightarrow> payload io" where
  "handleDeckAction c r args =
     performAction c r (ac_entity args) (ac_id args) (ac_action args)
       (case ac_params args of None \<Rightarrow> [] | Some q \<Rightarrow> q)"

section \<open>Vocabulary of the statements\<close>

text \<open>The stacks a board's stack list holds, when the remote system serves it.\<close>

definition stacksOf :: "DeckClient \<Rightarrow> remote \<Rightarrow> int \<Rightarrow> DeckStack list option" where
  "stacksOf c r boardId =
     (case snd (getStacks c r boardId) of Inr (PStacks stacks) \<Rightarrow> Some stacks | _ \<Rightarrow> None)"

text \<open>A board whose stack list is served and none of whose stacks holds the card.\<close>

definition boardWithout :: "DeckClient \<Rightarrow> remote \<Rightarrow> jsval \<Rightarrow> DeckBoard \<Rightarrow> bool" where
  "boardWithout c r cardId board =
     (case stacksOf c r (b_id board) of
        None \<Rightarrow> False
      | Some stacks \<Rightarrow> list_all (\<lambda>s. \<not> holdsCard cardId s) stacks)"

text \<open>A board whose stack list is served and holds no stack of the given id.\<close>

definition boardLacks :: "DeckClient \<Rightarrow> remote \<Rightarrow> jsval \<Rightarrow> DeckBoard \<Rightarrow> bool" where
  "boardLacks c r stackId board =
     (case stacksOf c r (b_id board) of
        None \<Rightarrow> False
      | Some stacks \<Rightarrow> find (\<lambda>s. JNum (s_id s) = stackId) stacks = None)"

text \<open>The cards of a stack as \<open>getCards\<close> reads them, when the remote system serves them.\<close>

definition cardsOf :: "DeckClient \<Rightarrow> remote \<Rightarrow> int \<Rightarrow> DeckCard list option" where
  "cardsOf c r stackId = (case snd (getCards c r stackId) of Inr cards \<Rightarrow> Some cards | _ \<Rightarrow> None)"

text \<open>The card lists of the stacks, one after the other.\<close>

definition allCardsOf :: "DeckClient \<Rightarrow> remote \<Rightarrow> DeckStack list \<Rightarrow> DeckCard list" where
  "allCardsOf c r stacks =
     concat (map (\<lambda>s. case cardsOf c r (s_id s) of None \<Rightarrow> [] | Some cards \<Rightarrow> cards) stacks)"

text \<open>
  A card passes the filters of a board-wide read.  An empty \<open>search\<close> is no filter
  (\<open>if (params.search)\<close>).
\<close>

definition passes :: "(string \<Rightarrow> string) \<Rightarrow> ReadParams \<Rightarrow> DeckCard \<Rightarrow> bool" where
  "passes toLowerCase p k =
     ((case p_search p of None \<Rightarrow> True | Some q \<Rightarrow> q = [] \<or> searchFilter toLowerCase q k) \<and>
      (case p_archived p of None \<Rightarrow> True | Some a \<Rightarrow> k_archived k = a) \<and>
      (case p_done p of None \<Rightarrow> True | Some d \<Rightarrow> k_done k = Some d))"

text \<open>The fetch of a call fails: it is rejected, answered with a status that is not a
  success, or answered with a body that is not JSON.\<close>

definition fetch_fails :: "remote \<Rightarrow> call \<Rightarrow> bool" where
  "fetch_fails r cl =
     (case r cl of None \<Rightarrow> True | Some resp \<Rightarrow> \<not> ok resp \<or> r_json resp = None)"

definition is_write :: "call \<Rightarrow> bool" where
  "is_write cl = (c_method cl = ''POST'' \<or> c_method cl = ''PUT'' \<or> c_method cl = ''DELETE'')"

text \<open>The actions \<open>performAction\<close> implements, all of them on cards.\<close>

definition card_actions :: "string list" where
  "card_actions = [''move'', ''assign'', ''unassign'', ''add_label'', ''remove_label'', ''archive'',
                   ''unarchive'', ''mark_done'', ''mark_undone'', ''reorder'']"

section \<open>Remote systems to evaluate on\<close>

definition ex_client :: DeckClient where
  "ex_client = \<lparr> baseUrl = ''https://nc'', auth = ''Basic dTpw'' \<rparr>"

definition card42 :: DeckCard where
  "card42 = \<lparr> k_id = 42, k_title = ''Fix Bug'', k_description = Some ''Urgent'', k_stackId = 22,
              k_archived = False, k_done = None \<rparr>"

definition card100 :: DeckCard where
  "card100 = \<lparr> k_id = 100, k_title = ''Write docs'', k_description = None, k_stackId = 11,
               k_archived = True, k_done = Some True \<rparr>"

definition card200 :: DeckCard where
  "card200 = \<lparr> k_id = 200, k_title = ''Debug login'', k_description = Some ''see BUG-7'',
               k_stackId = 21, k_archived = False, k_done = Some False \<rparr>"

definition stack11 :: DeckStack where
  "stack11 = \<lparr> s_id = 11, s_title = ''Done'', s_boardId = 1, s_cards = Some [card100] \<rparr>"

definition stack21 :: DeckStack where
  "stack21 = \<lparr> s_id = 21, s_title = ''To do'', s_boardId = 2, s_cards = Some [card200] \<rparr>"

definition stack22 :: DeckStack where
  "stack22 = \<lparr> s_id = 22, s_title = ''Doing'', s_boardId = 2, s_cards = Some [card42] \<rparr>"

definition stack0 :: DeckStack where
  "stack0 = \<lparr> s_id = 0, s_title = ''Nought'', s_boardId = 1, s_cards = Some [card100] \<rparr>"

definition board1 :: DeckBoard where
  "board1 = \<lparr> b_id = 1, b_title = ''Home'', b_labels = None \<rparr>"

definition board2 :: DeckBoard where
  "board2 = \<lparr> b_id = 2, b_title = ''Work'', b_labels = None \<rparr>"

definition board0 :: DeckBoard where
  "board0 = \<lparr> b_id = 0, b_title = ''Nought'', b_labels = None \<rparr>"

text \<open>
  A lower-casing function to evaluate with: it lower-cases the letters A to Z.  On strings
  of ASCII characters, as all the strings of the examples are, it is what the library's
  \<open>toLowerCase\<close> computes.
\<close>

definition ascii_lower_char :: "char \<Rightarrow> char" where
  "ascii_lower_char ch =
     (case map_of (zip ''ABCDEFGHIJKLMNOPQRSTUVWXYZ'' ''abcdefghijklmnopqrstuvwxyz'') ch of
        None \<Rightarrow> ch
      | Some l \<Rightarrow> l)"

definition ascii_lower :: "string \<Rightarrow> string" where
  "ascii_lower s = map ascii_lower_char s"

definition reply :: "payload \<Rightarrow> response option" where
  "reply p = Some \<lparr> r_status = 200, r_text = [], r_json = Some p \<rparr>"

text \<open>
  Boards 1 and 2; board 1 holds stack 11, board 2 the stacks 21 and 22, and card 42 lies
  in stack 22.  Every write is accepted, but there is no comment 7 on card 42.
\<close>

definition ex_remote :: remote where
  "ex_remote cl =
     (if c_method cl = ''GET'' then
        (if c_url cl = ''https://nc/index.php/apps/deck/api/v1.0/boards''
         then reply (PBoards [board1, board2])
         else if c_url cl = ''https://nc/index.php/apps/deck/api/v1.0/boards/1/stacks''
         then reply (PStacks [stack11])
         else if c_url cl = ''https://nc/index.php/apps/deck/api/v1.0/boards/2/stacks''
         then reply (PStacks [stack21, stack22])
         else if c_url cl = ''https://nc/index.php/apps/deck/api/v1.0/stacks/11''
         then reply (PStack stack11)
         else if c_url cl = ''https://nc/index.php/apps/deck/api/v1.0/stacks/21''
         then reply (PStack stack21)
         else if c_url cl = ''https://nc/index.php/apps/deck/api/v1.0/stacks/22''
         then reply (PStack stack22)
         else if c_url cl = ''https://nc/index.php/apps/deck/api/v1.0/stacks/0''
         then reply (PStack stack0)
         else Some \<lparr> r_status = 404, r_text = ''Not found'', r_json = None \<rparr>)
      else if c_url cl = ''https://nc/index.php/apps/deck/cards/42/comments/7''
      then Some \<lparr> r_status = 404, r_text = ''Comment not found'', r_json = None \<rparr>
      else reply (PCard card42))"

text \<open>
  A remote system whose first board has the id 0: board 0 holds stack 22 with card 42,
  board 1 holds stack 11.
\<close>

definition zero_remote :: remote where
  "zero_remote cl =
     (if c_method cl = ''GET'' then
        (if c_url cl = ''https://nc/index.php/apps/deck/api/v1.0/boards''
         then reply (PBoards [board0, board1])
         else if c_url cl = ''https://nc/index.php/apps/deck/api/v1.0/boards/0/stacks''
         then reply (PStacks [stack22])
         else if c_url cl = ''https://nc/index.php/apps/deck/api/v1.0/boards/1/stacks''
         then reply (PStacks [stack11])
         else if c_url cl = ''https://nc/index.php/apps/deck/api/v1.0/stacks/22''
         then reply (PStack stack22)
         else if c_url cl = ''https://nc/index.php/apps/deck/api/v1.0/stacks/11''
         then reply (PStack stack11)
         else Some \<lparr> r_status = 404, r_text = ''Not found'', r_json = None \<rparr>)
      else reply (PCard card42))"

text \<open>
  A remote system that serves the board list and the stacks of board 1, and answers
  every other call with the status 500.
\<close>

definition flaky_remote :: remote where
  "flaky_remote cl =
     (if c_method cl = ''GET'' \<and> c_url cl = ''https://nc/index.php/apps/deck/api/v1.0/boards''
      then reply (PBoards [board1, board2])
      else if c_method cl = ''GET'' \<and> c_url cl = ''https://nc/index.php/apps/deck/api/v1.0/boards/1/stacks''
      then reply (PStacks [stack11])
      else Some \<lparr> r_status = 500, r_text = ''Internal Server Error'', r_json = None \<rparr>)"

section \<open>Sequencing\<close>

lemma bind_io_throw [simp]: "bind_io (t, Inl e) f = (t, Inl e)"
  by (simp add: bind_io_def)

lemma bind_io_value [simp]: "bind_io (t, Inr x) f = (t @ fst (f x), snd (f x))"
  by (simp add: bind_io_def)

lemma bind_io_return [simp]: "bind_io (return_io x) f = f x"
  by (simp add: bind_io_def return_io_def)

lemma bind_io_thrown [simp]: "bind_io (throw e) f = throw e"
  by (simp add: bind_io_def throw_def)

lemma fst_bind_io: "fst (bind_io m f) = (case snd m of Inl e \<Rightarrow> fst m | Inr x \<Rightarrow> fst m @ fst (f x))"
  by (simp add: bind_io_def split: sum.splits)

lemma snd_bind_io: "snd (bind_io m f) = (case snd m of Inl e \<Rightarrow> Inl e | Inr x \<Rightarrow> snd (f x))"
  by (simp add: bind_io_def split: sum.splits)

lemma fst_request [simp]: "fst (request c r m e b) = [api_call c m e b]"
  by (simp add: request_def)

section \<open>Evaluation and strings\<close>

lemmas ex_defs = ex_client_def ex_remote_def zero_remote_def reply_def card42_def card100_def
  card200_def stack11_def stack21_def stack22_def stack0_def board0_def board1_def board2_def

lemmas show_defs = show_int_def show_nat.simps digit_def

lemma includes_str_nil [simp]: "includes_str s []"
  by (cases s) simp_all

lemma includes_str_take: "take (length sub) s = sub \<Longrightarrow> includes_str s sub"
  by (cases s) auto

lemma includes_str_prefix: "includes_str (sub @ t) sub"
  by (rule includes_str_take) simp

lemma includes_str_append: "includes_str (a @ sub @ t) sub"
proof (induction a)
  case Nil
  show ?case using includes_str_prefix by simp
next
  case (Cons x a)
  then show ?case by simp
qed

lemma includes_str_end: "includes_str (a @ sub) sub"
  using includes_str_append [of a sub "[]"] by simp

section \<open>Actions\<close>

lemma performAction_move:
  "performAction c r ''card'' i ''move'' ps =
     request c r ''PUT'' (''/cards/'' @ show_int i @ ''/reorder'')
       (Some [(''stackId'', field ps ''stackId''), (''order'', nullish (field ps ''order'') (JNum 999))])"
  by (simp add: performAction_def moveCard_def)

lemma performAction_reorder:
  "performAction c r ''card'' i ''reorder'' ps =
     request c r ''PUT'' (''/cards/'' @ show_int i @ ''/reorder'')
       (Some [(''stackId'', field ps ''stackId''), (''order'', nullish (field ps ''order'') (JNum 999))])"
  by (simp add: performAction_def moveCard_def reorderCard_def)

text \<open>
  Claim C6.  On the same card, target stack and order, the actions \<open>move\<close> and
  \<open>reorder\<close> are the same computation: the same single call (\<open>PUT\<close> on
  \<open>/cards/{id}/reorder\<close>, the same headers, the body \<open>{stackId, order}\<close>) and the same
  outcome.  In both the order is \<open>params.order ?? 999\<close>: 999 when the order is missing
  (or null), the given order otherwise.
\<close>

theorem move_reorder_same_call:
  "handleDeckAction c r \<lparr> ac_entity = ''card'', ac_id = i, ac_action = ''move'', ac_params = ps \<rparr>
     = handleDeckAction c r \<lparr> ac_entity = ''card'', ac_id = i, ac_action = ''reorder'', ac_params = ps \<rparr>
   \<and> fst (handleDeckAction c r \<lparr> ac_entity = ''card'', ac_id = i, ac_action = ''move'', ac_params = Some params \<rparr>)
     = [\<lparr> c_method = ''PUT'',
          c_url = baseUrl c @ ''/index.php/apps/deck/api/v1.0'' @ ''/cards/'' @ show_int i @ ''/reorder'',
          c_headers = [(''Authorization'', auth c), (''Content-Type'', ''application/json''),
                       (''OCS-APIRequest'', ''true'')],
          c_body = Some (stringify [(''stackId'', field params ''stackId''),
                                    (''order'', nullish (field params ''order'') (JNum 999))]) \<rparr>]
   \<and> (map_of params ''order'' = None \<longrightarrow> nullish (field params ''order'') (JNum 999) = JNum 999)
   \<and> (map_of params ''order'' = Some (JNum n) \<longrightarrow> nullish (field params ''order'') (JNum 999) = JNum n)"
  by (simp add: handleDeckAction_def performAction_move performAction_reorder api_call_def
        nullish_def field_def)

theorem move_reorder_same_call_witness:
  "fst (handleDeckAction ex_client ex_remote
          \<lparr> ac_entity = ''card'', ac_id = 42, ac_action = ''reorder'', ac_params = Some [(''stackId'', JNum 21)] \<rparr>)
     = [\<lparr> c_method = ''PUT'',
          c_url = ''https://nc/index.php/apps/deck/api/v1.0/cards/42/reorder'',
          c_headers = [(''Authorization'', ''Basic dTpw''), (''Content-Type'', ''application/json''),
                       (''OCS-APIRequest'', ''true'')],
          c_body = Some [(''stackId'', JNum 21), (''order'', JNum 999)] \<rparr>]
   \<and> fst (handleDeckAction ex_client ex_remote
          \<lparr> ac_entity = ''card'', ac_id = 42, ac_action = ''reorder'',
            ac_params = Some [(''stackId'', JNum 21), (''order'', JNum 3)] \<rparr>)
     = [\<lparr> c_method = ''PUT'',
          c_url = ''https://nc/index.php/apps/deck/api/v1.0/cards/42/reorder'',
          c_headers = [(''Authorization'', ''Basic dTpw''), (''Content-Type'', ''application/json''),
                       (''OCS-APIRequest'', ''true'')],
          c_body = Some [(''stackId'', JNum 21), (''order'', JNum 3)] \<rparr>]"
  using move_reorder_same_call [where c = ex_client and r = ex_remote and i = 42
      and ps = "Some [(''stackId'', JNum 21)]" and params = "[(''stackId'', JNum 21)]" and n = 3]
    move_reorder_same_call [where c = ex_client and r = ex_remote and i = 42
      and ps = "Some [(''stackId'', JNum 21), (''order'', JNum 3)]"
      and params = "[(''stackId'', JNum 21), (''order'', JNum 3)]" and n = 3]
  by (auto simp add: ex_client_def show_defs stringify_def field_def nullish_def)

lemma performAction_other_entity:
  "entity \<noteq> ''card'' \<Longrightarrow>
   performAction c r entity i action params =
     ([], Inl (UnsupportedAction (''Actions for entity '' @ [CHR 0x22] @ entity @ [CHR 0x22] @ '' are not implemented'')))"
  by (simp add: performAction_def throw_def)

lemma performAction_unknown_action:
  "action \<notin> set card_actions \<Longrightarrow>
   performAction c r ''card'' i action params = ([], Inl (UnsupportedAction (''Unknown action: '' @ action)))"
  by (simp add: performAction_def throw_def card_actions_def)

text \<open>
  Claim C7.  The implemented pairs are the entity \<open>card\<close> with one of the ten actions of
  \<open>card_actions\<close>.  Outside them the action tool fails with an \<open>UnsupportedAction\<close>
  error and sends no call: for an entity other than \<open>card\<close> (so for every action on
  \<open>stack\<close>) the message is \<open>Actions for entity "..." are not implemented\<close>, for an
  unknown action on a card it is \<open>Unknown action: ...\<close>.
\<close>

theorem unsupported_action_no_call:
  "(ac_entity args \<noteq> ''card'' \<longrightarrow>
      handleDeckAction c r args =
        ([], Inl (UnsupportedAction (''Actions for entity '' @ [CHR 0x22] @ ac_entity args @ [CHR 0x22]
                                       @ '' are not implemented''))))
   \<and> (ac_entity args = ''card'' \<and> ac_action args \<notin> set card_actions \<longrightarrow>
      handleDeckAction c r args = ([], Inl (UnsupportedAction (''Unknown action: '' @ ac_action args))))
   \<and> (ac_entity args = ''stack'' \<longrightarrow>
      handleDeckAction c r args =
        ([], Inl (UnsupportedAction (''Actions for entity '' @ [CHR 0x22] @ ''stack'' @ [CHR 0x22]
                                       @ '' are not implemented''))))"
  by (auto simp add: handleDeckAction_def performAction_other_entity performAction_unknown_action)

theorem unsupported_action_no_call_witness:
  "handleDeckAction ex_client ex_remote
     \<lparr> ac_entity = ''stack'', ac_id = 11, ac_action = ''reorder'', ac_params = Some [(''order'', JNum 1)] \<rparr>
     = ([], Inl (UnsupportedAction (''Actions for entity '' @ [CHR 0x22] @ ''stack'' @ [CHR 0x22] @ '' are not implemented'')))
   \<and> handleDeckAction ex_client ex_remote
     \<lparr> ac_entity = ''card'', ac_id = 42, ac_action = ''duplicate'', ac_params = None \<rparr>
     = ([], Inl (UnsupportedAction ''Unknown action: duplicate''))"
  using unsupported_action_no_call [of "\<lparr> ac_entity = ''stack'', ac_id = 11, ac_action = ''reorder'', ac_params = Some [(''order'', JNum 1)] \<rparr>" ex_client ex_remote]
    unsupported_action_no_call [of "\<lparr> ac_entity = ''card'', ac_id = 42, ac_action = ''duplicate'', ac_params = None \<rparr>" ex_client ex_remote]
  by (simp add: card_actions_def)

section \<open>Errors of the remote system\<close>

lemma request_not_ok:
  "r (api_call c m e b) = Some resp \<Longrightarrow> \<not> ok resp \<Longrightarrow>
   request c r m e b =
     ([api_call c m e b],
      Inl (RemoteError (''Deck API Error ('' @ show_nat (r_status resp) @ ''): '' @ r_text resp)))"
  by (simp add: request_def)

lemma getComments_not_ok:
  "r (comments_call c ''GET'' (show_int cardId @ ''/comments'') False None) = Some resp
   \<Longrightarrow> \<not> ok resp \<Longrightarrow>
   getComments c r cardId =
     ([comments_call c ''GET'' (show_int cardId @ ''/comments'') False None],
      Inl (RemoteError (''Failed to get comments: '' @ show_nat (r_status resp))))"
  by (simp add: getComments_def Let_def)

lemma createComment_not_ok:
  "r (comments_call c ''POST'' (template (field d ''cardId'') @ ''/comments'') True
        (Some [(''message'', field d ''message'')])) = Some resp
   \<Longrightarrow> \<not> ok resp \<Longrightarrow>
   createComment c r d =
     ([comments_call c ''POST'' (template (field d ''cardId'') @ ''/comments'') True
         (Some [(''message'', field d ''message'')])],
      Inl (RemoteError (''Failed to create comment: '' @ show_nat (r_status resp))))"
  by (simp add: createComment_def Let_def)

lemma deleteComment_not_ok:
  "r (comments_call c ''DELETE'' (show_int cardId @ ''/comments/'' @ show_int commentId) False None) = Some resp
   \<Longrightarrow> \<not> ok resp \<Longrightarrow>
   deleteComment c r cardId commentId =
     ([comments_call c ''DELETE'' (show_int cardId @ ''/comments/'' @ show_int commentId) False None],
      Inl (RemoteError (''Failed to delete comment: '' @ show_nat (r_status resp))))"
  by (simp add: deleteComment_def Let_def)

text \<open>
  Claim C9, as the code has it.  A call made through \<open>request\<close> that is answered with a
  status outside 200..299 fails with the message \<open>Deck API Error (status): body\<close>, which
  holds the status code and the body of the reply as they are.  The comment operations
  call \<open>fetch\<close> themselves: on such a status they fail with
  \<open>Failed to get comments: status\<close>, \<open>Failed to create comment: status\<close> or
  \<open>Failed to delete comment: status\<close>; the status code is kept, the body of the reply is
  not part of the message.  Deleting a comment through the delete tool surfaces that
  error unchanged.
\<close>

theorem remote_error_message:
  "(r (api_call c m e b) = Some resp \<and> \<not> ok resp \<longrightarrow>
      request c r m e b =
        ([api_call c m e b],
         Inl (RemoteError (''Deck API Error ('' @ show_nat (r_status resp) @ ''): '' @ r_text resp)))
      \<and> includes_str (''Deck API Error ('' @ show_nat (r_status resp) @ ''): '' @ r_text resp)
           (show_nat (r_status resp))
      \<and> includes_str (''Deck API Error ('' @ show_nat (r_status resp) @ ''): '' @ r_text resp)
           (r_text resp))
   \<and> (r (comments_call c ''DELETE'' (show_int cardId @ ''/comments/'' @ show_int commentId) False None)
         = Some resp' \<and> \<not> ok resp' \<and> supplied cid = Some cardId \<longrightarrow>
      handleDeckDelete c r \<lparr> de_entity = ''comment'', de_id = commentId, de_boardId = bid, de_cardId = cid \<rparr> =
        ([comments_call c ''DELETE'' (show_int cardId @ ''/comments/'' @ show_int commentId) False None],
         Inl (RemoteError (''Failed to delete comment: '' @ show_nat (r_status resp'))))
      \<and> includes_str (''Failed to delete comment: '' @ show_nat (r_status resp')) (show_nat (r_status resp')))
   \<and> (r (comments_call c ''GET'' (show_int cardId @ ''/comments'') False None) = Some resp' \<and> \<not> ok resp' \<longrightarrow>
      getComments c r cardId =
        ([comments_call c ''GET'' (show_int cardId @ ''/comments'') False None],
         Inl (RemoteError (''Failed to get comments: '' @ show_nat (r_status resp')))))
   \<and> (r (comments_call c ''POST'' (template (field d ''cardId'') @ ''/comments'') True
            (Some [(''message'', field d ''message'')])) = Some resp' \<and> \<not> ok resp' \<longrightarrow>
      createComment c r d =
        ([comments_call c ''POST'' (template (field d ''cardId'') @ ''/comments'') True
            (Some [(''message'', field d ''message'')])],
         Inl (RemoteError (''Failed to create comment: '' @ show_nat (r_status resp')))))"
proof -
  have a: "includes_str (''Deck API Error ('' @ show_nat (r_status resp) @ ''): '' @ r_text resp)
           (show_nat (r_status resp))"
    by (rule includes_str_append)
  have b: "includes_str (''Deck API Error ('' @ show_nat (r_status resp) @ ''): '' @ r_text resp) (r_text resp)"
    using includes_str_end [of "''Deck API Error ('' @ show_nat (r_status resp) @ ''): ''" "r_text resp"]
    by simp
  have d: "includes_str (''Failed to delete comment: '' @ show_nat (r_status resp')) (show_nat (r_status resp'))"
    by (rule includes_str_end)
  show ?thesis
    using a b d
    by (simp add: request_not_ok deleteComment_not_ok getComments_not_ok createComment_not_ok
          handleDeckDelete_def)
qed

theorem remote_error_message_witness:
  "request ex_client ex_remote ''GET'' ''/boards/9'' None =
     ([\<lparr> c_method = ''GET'', c_url = ''https://nc/index.php/apps/deck/api/v1.0/boards/9'',
          c_headers = [(''Authorization'', ''Basic dTpw''), (''Content-Type'', ''application/json''),
                       (''OCS-APIRequest'', ''true'')],
          c_body = None \<rparr>],
      Inl (RemoteError ''Deck API Error (404): Not found''))
   \<and> handleDeckDelete ex_client ex_remote
        \<lparr> de_entity = ''comment'', de_id = 7, de_boardId = None, de_cardId = Some 42 \<rparr> =
     ([\<lparr> c_method = ''DELETE'', c_url = ''https://nc/index.php/apps/deck/cards/42/comments/7'',
          c_headers = [(''Authorization'', ''Basic dTpw''), (''OCS-APIRequest'', ''true'')],
          c_body = None \<rparr>],
      Inl (RemoteError ''Failed to delete comment: 404''))
   \<and> snd (getComments ex_client ex_remote 42) = Inl (RemoteError ''Failed to get comments: 404'')
   \<and> snd (createComment ex_client (\<lambda>cl. Some \<lparr> r_status = 500, r_text = ''Oops'', r_json = None \<rparr>)
             [(''cardId'', JNum 42), (''message'', JStr ''hello'')])
       = Inl (RemoteError ''Failed to create comment: 500'')"
  using remote_error_message [of ex_remote ex_client "''GET''" "''/boards/9''" None
      "\<lparr> r_status = 404, r_text = ''Not found'', r_json = None \<rparr>" 42 7
      "\<lparr> r_status = 404, r_text = ''Comment not found'', r_json = None \<rparr>" "Some 42" None]
    remote_error_message [of ex_remote ex_client "''GET''" "''/boards/9''" None
      "\<lparr> r_status = 404, r_text = ''Not found'', r_json = None \<rparr>" 42 7
      "\<lparr> r_status = 404, r_text = ''Not found'', r_json = None \<rparr>" "Some 42" None]
    remote_error_message [of "\<lambda>cl. Some \<lparr> r_status = 500, r_text = ''Oops'', r_json = None \<rparr>"
      ex_client "''GET''" "''/boards/9''" None
      "\<lparr> r_status = 500, r_text = ''Oops'', r_json = None \<rparr>" 42 7
      "\<lparr> r_status = 500, r_text = ''Oops'', r_json = None \<rparr>" "Some 42" None
      "[(''cardId'', JNum 42), (''message'', JStr ''hello'')]"]
  by (simp add: ex_defs show_defs api_call_def comments_call_def ok_def supplied_def field_def)

text \<open>
  Claim C9 as stated fails on the comment deletion it names: the remote system answers
  404 with the body \<open>Comment not found\<close>, and the surfaced message
  \<open>Failed to delete comment: 404\<close> does not hold that body.
\<close>

theorem comment_error_drops_body:
  "ex_remote (comments_call ex_client ''DELETE'' (show_int 42 @ ''/comments/'' @ show_int 7) False None)
     = Some \<lparr> r_status = 404, r_text = ''Comment not found'', r_json = None \<rparr>
   \<and> snd (handleDeckDelete ex_client ex_remote
        \<lparr> de_entity = ''comment'', de_id = 7, de_boardId = None, de_cardId = Some 42 \<rparr>)
       = Inl (RemoteError ''Failed to delete comment: 404'')
   \<and> \<not> includes_str ''Failed to delete comment: 404'' ''Comment not found''"
  by (simp add: handleDeckDelete_def deleteComment_def ex_defs show_defs comments_call_def ok_def supplied_def)

section \<open>Validation in the handlers\<close>

lemma read_params_entity [simp]: "read_params (a\<lparr>rd_entity := e\<rparr>) = read_params a"
  by (simp add: read_params_def)

lemma read_id_missing:
  "supplied (p_id (read_params a)) = None \<Longrightarrow>
   handleDeckRead toLowerCase c r (a\<lparr>rd_entity := ''board''\<rparr>) = ([], Inl (MissingParameter ''Board ID is required''))
   \<and> handleDeckRead toLowerCase c r (a\<lparr>rd_entity := ''card''\<rparr>) = ([], Inl (MissingParameter ''Card ID is required''))"
  by (simp add: handleDeckRead_def throw_def)

lemma read_boardId_missing:
  "supplied (p_boardId (read_params a)) = None \<Longrightarrow>
   handleDeckRead toLowerCase c r (a\<lparr>rd_entity := ''stacks''\<rparr>)
     = ([], Inl (MissingParameter ''Board ID is required to get stacks''))
   \<and> handleDeckRead toLowerCase c r (a\<lparr>rd_entity := ''labels''\<rparr>)
     = ([], Inl (MissingParameter ''Board ID is required to get labels''))"
  by (simp add: handleDeckRead_def throw_def)

lemma read_pair_missing:
  "supplied (p_boardId (read_params a)) = None \<or> supplied (p_id (read_params a)) = None \<Longrightarrow>
   handleDeckRead toLowerCase c r (a\<lparr>rd_entity := ''stack''\<rparr>)
     = ([], Inl (MissingParameter ''Board ID and Stack ID are required''))
   \<and> handleDeckRead toLowerCase c r (a\<lparr>rd_entity := ''label''\<rparr>)
     = ([], Inl (MissingParameter ''Board ID and Label ID are required''))"
  by (auto simp add: handleDeckRead_def readLabel_def throw_def Let_def split: option.splits)

lemma read_cards_missing:
  "supplied (p_stackId (read_params a)) = None \<Longrightarrow> supplied (p_boardId (read_params a)) = None \<Longrightarrow>
   handleDeckRead toLowerCase c r (a\<lparr>rd_entity := ''cards''\<rparr>)
     = ([], Inl (MissingParameter ''Either stackId or boardId is required to get cards''))"
  by (simp add: handleDeckRead_def readCards_def throw_def)

lemma read_cardId_missing:
  "supplied (p_cardId (read_params a)) = None \<Longrightarrow>
   handleDeckRead toLowerCase c r (a\<lparr>rd_entity := ''comments''\<rparr>)
     = ([], Inl (MissingParameter ''Card ID is required to get comments''))
   \<and> handleDeckRead toLowerCase c r (a\<lparr>rd_entity := ''attachments''\<rparr>)
     = ([], Inl (MissingParameter ''Card ID is required to get attachments''))"
  by (simp add: handleDeckRead_def throw_def)

lemma update_boardId_missing:
  "supplied (up_boardId u) = None \<Longrightarrow>
   handleDeckUpdate c r (u\<lparr>up_entity := ''stack''\<rparr>)
     = ([], Inl (MissingParameter ''Board ID is required to update stack''))
   \<and> handleDeckUpdate c r (u\<lparr>up_entity := ''label''\<rparr>)
     = ([], Inl (MissingParameter ''Board ID is required to update label''))"
  by (simp add: handleDeckUpdate_def throw_def)

lemma delete_boardId_missing:
  "supplied (de_boardId d) = None \<Longrightarrow>
   handleDeckDelete c r (d\<lparr>de_entity := ''stack''\<rparr>)
     = ([], Inl (MissingParameter ''Board ID is required to delete stack''))
   \<and> handleDeckDelete c r (d\<lparr>de_entity := ''label''\<rparr>)
     = ([], Inl (MissingParameter ''Board ID is required to delete label''))"
  by (simp add: handleDeckDelete_def throw_def)

lemma delete_cardId_missing:
  "supplied (de_cardId d) = None \<Longrightarrow>
   handleDeckDelete c r (d\<lparr>de_entity := ''comment''\<rparr>)
     = ([], Inl (MissingParameter ''Card ID is required to delete comment''))
   \<and> handleDeckDelete c r (d\<lparr>de_entity := ''attachment''\<rparr>)
     = ([], Inl (MissingParameter ''Card ID is required to delete attachment''))"
  by (simp add: handleDeckDelete_def throw_def)

lemma create_sends:
  "fst (handleDeckCreate c r \<lparr> cr_entity = ''board'', cr_data = d \<rparr>) = [api_call c ''POST'' ''/boards'' (Some d)]"
  "fst (handleDeckCreate c r \<lparr> cr_entity = ''stack'', cr_data = d \<rparr>)
     = [api_call c ''POST'' (''/boards/'' @ template (field d ''boardId'') @ ''/stacks'')
          (Some [(''title'', field d ''title''), (''order'', nullish (field d ''order'') (JNum 999))])]"
  "fst (handleDeckCreate c r \<lparr> cr_entity = ''label'', cr_data = d \<rparr>)
     = [api_call c ''POST'' (''/boards/'' @ template (field d ''boardId'') @ ''/labels'')
          (Some [(''title'', field d ''title''), (''color'', field d ''color'')])]"
  "fst (handleDeckCreate c r \<lparr> cr_entity = ''comment'', cr_data = d \<rparr>)
     = [comments_call c ''POST'' (template (field d ''cardId'') @ ''/comments'') True
          (Some [(''message'', field d ''message'')])]"
  "fst (handleDeckCreate c r \<lparr> cr_entity = ''attachment'', cr_data = d \<rparr>)
     = [api_call c ''POST'' (''/cards/'' @ template (field d ''cardId'') @ ''/attachments'')
          (Some [(''type'', field d ''type''), (''data'', field d ''data'')])]"
  by (simp_all add: handleDeckCreate_def createBoard_def createStack_def createLabel_def
        createComment_def createAttachment_def Let_def)

text \<open>
  Claim C2, as the code has it.  The read, update and delete handlers check the identifier
  arguments they need: when one is absent (or zero, which \<open>if (!x)\<close> takes as absent) the
  call fails with a \<open>MissingParameter\<close> error naming it, and no call is sent.  These
  are all the checks there are: the fields of \<open>data\<close> are never checked, and the create
  handler checks nothing, so creating a board, stack, label, comment or attachment sends
  its POST whatever \<open>data\<close> holds.
\<close>

theorem missing_id_fails_before_any_call:
  "(supplied (p_id (read_params a)) = None \<longrightarrow>
      handleDeckRead toLowerCase c r (a\<lparr>rd_entity := ''board''\<rparr>) = ([], Inl (MissingParameter ''Board ID is required''))
      \<and> handleDeckRead toLowerCase c r (a\<lparr>rd_entity := ''card''\<rparr>) = ([], Inl (MissingParameter ''Card ID is required'')))
   \<and> (supplied (p_boardId (read_params a)) = None \<longrightarrow>
      handleDeckRead toLowerCase c r (a\<lparr>rd_entity := ''stacks''\<rparr>)
        = ([], Inl (MissingParameter ''Board ID is required to get stacks''))
      \<and> handleDeckRead toLowerCase c r (a\<lparr>rd_entity := ''labels''\<rparr>)
        = ([], Inl (MissingParameter ''Board ID is required to get labels'')))
   \<and> (supplied (p_boardId (read_params a)) = None \<or> supplied (p_id (read_params a)) = None \<longrightarrow>
      handleDeckRead toLowerCase c r (a\<lparr>rd_entity := ''stack''\<rparr>)
        = ([], Inl (MissingParameter ''Board ID and Stack ID are required''))
      \<and> handleDeckRead toLowerCase c r (a\<lparr>rd_entity := ''label''\<rparr>)
        = ([], Inl (MissingParameter ''Board ID and Label ID are required'')))
   \<and> (supplied (p_stackId (read_params a)) = None \<and> supplied (p_boardId (read_params a)) = None \<longrightarrow>
      handleDeckRead toLowerCase c r (a\<lparr>rd_entity := ''cards''\<rparr>)
        = ([], Inl (MissingParameter ''Either stackId or boardId is required to get cards'')))
   \<and> (supplied (p_cardId (read_params a)) = None \<longrightarrow>
      handleDeckRead toLowerCase c r (a\<lparr>rd_entity := ''comments''\<rparr>)
        = ([], Inl (MissingParameter ''Card ID is required to get comments''))
      \<and> handleDeckRead toLowerCase c r (a\<lparr>rd_entity := ''attachments''\<rparr>)
        = ([], Inl (MissingParameter ''Card ID is required to get attachments'')))
   \<and> (supplied (up_boardId u) = None \<longrightarrow>
      handleDeckUpdate c r (u\<lparr>up_entity := ''stack''\<rparr>)
        = ([], Inl (MissingParameter ''Board ID is required to update stack''))
      \<and> handleDeckUpdate c r (u\<lparr>up_entity := ''label''\<rparr>)
        = ([], Inl (MissingParameter ''Board ID is required to update label'')))
   \<and> (supplied (de_boardId d) = None \<longrightarrow>
      handleDeckDelete c r (d\<lparr>de_entity := ''stack''\<rparr>)
        = ([], Inl (MissingParameter ''Board ID is required to delete stack''))
      \<and> handleDeckDelete c r (d\<lparr>de_entity := ''label''\<rparr>)
        = ([], Inl (MissingParameter ''Board ID is required to delete label'')))
   \<and> (supplied (de_cardId d) = None \<longrightarrow>
      handleDeckDelete c r (d\<lparr>de_entity := ''comment''\<rparr>)
        = ([], Inl (MissingParameter ''Card ID is required to delete comment''))
      \<and> handleDeckDelete c r (d\<lparr>de_entity := ''attachment''\<rparr>)
        = ([], Inl (MissingParameter ''Card ID is required to delete attachment'')))
   \<and> fst (handleDeckCreate c r \<lparr> cr_entity = ''board'', cr_data = x \<rparr>) = [api_call c ''POST'' ''/boards'' (Some x)]
   \<and> fst (handleDeckCreate c r \<lparr> cr_entity = ''stack'', cr_data = x \<rparr>)
        = [api_call c ''POST'' (''/boards/'' @ template (field x ''boardId'') @ ''/stacks'')
             (Some [(''title'', field x ''title''), (''order'', nullish (field x ''order'') (JNum 999))])]
   \<and> fst (handleDeckCreate c r \<lparr> cr_entity = ''label'', cr_data = x \<rparr>)
        = [api_call c ''POST'' (''/boards/'' @ template (field x ''boardId'') @ ''/labels'')
             (Some [(''title'', field x ''title''), (''color'', field x ''color'')])]
   \<and> fst (handleDeckCreate c r \<lparr> cr_entity = ''comment'', cr_data = x \<rparr>)
        = [comments_call c ''POST'' (template (field x ''cardId'') @ ''/comments'') True
             (Some [(''message'', field x ''message'')])]
   \<and> fst (handleDeckCreate c r \<lparr> cr_entity = ''attachment'', cr_data = x \<rparr>)
        = [api_call c ''POST'' (''/cards/'' @ template (field x ''cardId'') @ ''/attachments'')
             (Some [(''type'', field x ''type''), (''data'', field x ''data'')])]"
  using read_id_missing [of a toLowerCase c r] read_boardId_missing [of a toLowerCase c r] read_pair_missing [of a toLowerCase c r]
    read_cards_missing [of a toLowerCase c r] read_cardId_missing [of a toLowerCase c r]
    update_boardId_missing [of u c r] delete_boardId_missing [of d c r] delete_cardId_missing [of d c r]
    create_sends [of c r x]
  by blast

theorem missing_id_fails_before_any_call_witness:
  "handleDeckRead ascii_lower ex_client ex_remote \<lparr> rd_entity = ''board'', rd_params = None \<rparr>
     = ([], Inl (MissingParameter ''Board ID is required''))
   \<and> handleDeckRead ascii_lower ex_client ex_remote \<lparr> rd_entity = ''card'', rd_params = None \<rparr>
     = ([], Inl (MissingParameter ''Card ID is required''))
   \<and> handleDeckRead ascii_lower ex_client ex_remote \<lparr> rd_entity = ''stacks'', rd_params = None \<rparr>
     = ([], Inl (MissingParameter ''Board ID is required to get stacks''))
   \<and> handleDeckRead ascii_lower ex_client ex_remote \<lparr> rd_entity = ''labels'', rd_params = None \<rparr>
     = ([], Inl (MissingParameter ''Board ID is required to get labels''))
   \<and> handleDeckRead ascii_lower ex_client ex_remote \<lparr> rd_entity = ''stack'', rd_params = None \<rparr>
     = ([], Inl (MissingParameter ''Board ID and Stack ID are required''))
   \<and> handleDeckRead ascii_lower ex_client ex_remote \<lparr> rd_entity = ''label'', rd_params = None \<rparr>
     = ([], Inl (MissingParameter ''Board ID and Label ID are required''))
   \<and> handleDeckRead ascii_lower ex_client ex_remote \<lparr> rd_entity = ''cards'', rd_params = None \<rparr>
     = ([], Inl (MissingParameter ''Either stackId or boardId is required to get cards''))
   \<and> handleDeckRead ascii_lower ex_client ex_remote \<lparr> rd_entity = ''comments'', rd_params = None \<rparr>
     = ([], Inl (MissingParameter ''Card ID is required to get comments''))
   \<and> handleDeckRead ascii_lower ex_client ex_remote \<lparr> rd_entity = ''attachments'', rd_params = None \<rparr>
     = ([], Inl (MissingParameter ''Card ID is required to get attachments''))
   \<and> handleDeckUpdate ex_client ex_remote
        \<lparr> up_entity = ''stack'', up_id = 11, up_data = [(''title'', JStr ''Later'')], up_boardId = None \<rparr>
     = ([], Inl (MissingParameter ''Board ID is required to update stack''))
   \<and> handleDeckUpdate ex_client ex_remote
        \<lparr> up_entity = ''label'', up_id = 11, up_data = [(''title'', JStr ''Later'')], up_boardId = None \<rparr>
     = ([], Inl (MissingParameter ''Board ID is required to update label''))
   \<and> handleDeckDelete ex_client ex_remote
        \<lparr> de_entity = ''stack'', de_id = 11, de_boardId = None, de_cardId = None \<rparr>
     = ([], Inl (MissingParameter ''Board ID is required to delete stack''))
   \<and> handleDeckDelete ex_client ex_remote
        \<lparr> de_entity = ''label'', de_id = 11, de_boardId = None, de_cardId = None \<rparr>
     = ([], Inl (MissingParameter ''Board ID is required to delete label''))
   \<and> handleDeckDelete ex_client ex_remote
        \<lparr> de_entity = ''comment'', de_id = 11, de_boardId = None, de_cardId = None \<rparr>
     = ([], Inl (MissingParameter ''Card ID is required to delete comment''))
   \<and> handleDeckDelete ex_client ex_remote
        \<lparr> de_entity = ''attachment'', de_id = 11, de_boardId = None, de_cardId = None \<rparr>
     = ([], Inl (MissingParameter ''Card ID is required to delete attachment''))"
  using missing_id_fails_before_any_call [where a = "\<lparr> rd_entity = [], rd_params = None \<rparr>"
      and toLowerCase = ascii_lower and c = ex_client and r = ex_remote
      and u = "\<lparr> up_entity = [], up_id = 11, up_data = [(''title'', JStr ''Later'')], up_boardId = None \<rparr>"
      and d = "\<lparr> de_entity = [], de_id = 11, de_boardId = None, de_cardId = None \<rparr>" and x = "[]"]
  by (simp add: read_params_def no_params_def supplied_def)

lemmas client_defs = request_def api_call_def ok_def getBoards_def getStacks_def getCards_def

text \<open>
  Claim C2 as stated fails on create.  A stack created with no \<open>boardId\<close> is POSTed to
  \<open>/boards/undefined/stacks\<close>, and the call succeeds; a card created with no
  \<open>stackId\<close> fetches the board list and every stack list, and then fails with
  \<open>Stack undefined not found in any board\<close>, which is not a \<open>MissingParameter\<close> error.
\<close>

theorem create_validates_nothing:
  "handleDeckCreate ex_client ex_remote \<lparr> cr_entity = ''stack'', cr_data = [(''title'', JStr ''Todo'')] \<rparr>
     = ([\<lparr> c_method = ''POST'', c_url = ''https://nc/index.php/apps/deck/api/v1.0/boards/undefined/stacks'',
           c_headers = [(''Authorization'', ''Basic dTpw''), (''Content-Type'', ''application/json''),
                        (''OCS-APIRequest'', ''true'')],
           c_body = Some [(''title'', JStr ''Todo''), (''order'', JNum 999)] \<rparr>],
        Inr (PCard card42))
   \<and> map (\<lambda>cl. (c_method cl, c_url cl))
        (fst (handleDeckCreate ex_client ex_remote
                \<lparr> cr_entity = ''card'', cr_data = [(''title'', JStr ''Buy milk'')] \<rparr>))
     = [(''GET'', ''https://nc/index.php/apps/deck/api/v1.0/boards''),
        (''GET'', ''https://nc/index.php/apps/deck/api/v1.0/boards/1/stacks''),
        (''GET'', ''https://nc/index.php/apps/deck/api/v1.0/boards/2/stacks'')]
   \<and> snd (handleDeckCreate ex_client ex_remote
             \<lparr> cr_entity = ''card'', cr_data = [(''title'', JStr ''Buy milk'')] \<rparr>)
     = Inl (NotFound ''Stack undefined not found in any board'')"
  by (simp add: handleDeckCreate_def createStack_def createCard_def resolveBoard_def client_defs
        ex_defs show_defs field_def nullish_def stringify_def return_io_def throw_def)

section \<open>Reading cards\<close>

lemma fst_getCards [simp]:
  "fst (getCards c r stackId) = [api_call c ''GET'' (''/stacks/'' @ show_int stackId) None]"
  by (simp add: getCards_def fst_bind_io return_io_def throw_def split: sum.splits payload.splits)

lemma getCards_cardsOf:
  "cardsOf c r stackId = Some cards \<Longrightarrow>
   getCards c r stackId = ([api_call c ''GET'' (''/stacks/'' @ show_int stackId) None], Inr cards)"
  using fst_getCards [of c r stackId]
  by (cases "getCards c r stackId") (auto simp add: cardsOf_def split: sum.splits)

lemma getCards_served:
  "r (api_call c ''GET'' (''/stacks/'' @ show_int stackId) None) = Some resp \<Longrightarrow> ok resp \<Longrightarrow>
   r_json resp = Some (PStack s) \<Longrightarrow>
   getCards c r stackId =
     ([api_call c ''GET'' (''/stacks/'' @ show_int stackId) None],
      Inr (case s_cards s of None \<Rightarrow> [] | Some cs \<Rightarrow> cs))"
  by (simp add: getCards_def request_def return_io_def)

lemma collectCards_all:
  "list_all (\<lambda>s. cardsOf c r (s_id s) \<noteq> None) stacks \<Longrightarrow>
   collectCards c r stacks acc =
     (map (\<lambda>s. api_call c ''GET'' (''/stacks/'' @ show_int (s_id s)) None) stacks,
      Inr (acc @ allCardsOf c r stacks))"
proof (induction stacks arbitrary: acc)
  case Nil
  show ?case by (simp add: allCardsOf_def return_io_def)
next
  case (Cons s stacks)
  from Cons.prems obtain cards where cards: "cardsOf c r (s_id s) = Some cards"
    by auto
  from Cons.prems have rest: "list_all (\<lambda>s. cardsOf c r (s_id s) \<noteq> None) stacks"
    by simp
  have "allCardsOf c r (s # stacks) = cards @ allCardsOf c r stacks"
    using cards by (simp add: allCardsOf_def)
  then show ?case
    using Cons.IH [OF rest, of "acc @ cards"] getCards_cardsOf [OF cards] by simp
qed

lemma applyFilters_passes: "applyFilters toLowerCase p cards = filter (passes toLowerCase p) cards"
proof -
  have s: "(case p_search p of None \<Rightarrow> cards
            | Some q \<Rightarrow> if q \<noteq> [] then filter (searchFilter toLowerCase q) cards else cards)
           = filter (\<lambda>k. case p_search p of None \<Rightarrow> True
                          | Some q \<Rightarrow> q = [] \<or> searchFilter toLowerCase q k) cards"
    by (cases "p_search p") auto
  have a: "\<And>xs. (case p_archived p of None \<Rightarrow> xs | Some a \<Rightarrow> filter (\<lambda>k. k_archived k = a) xs)
           = filter (\<lambda>k. case p_archived p of None \<Rightarrow> True | Some a \<Rightarrow> k_archived k = a) xs"
    by (cases "p_archived p") auto
  have d: "\<And>xs. (case p_done p of None \<Rightarrow> xs | Some d \<Rightarrow> filter (\<lambda>k. k_done k = Some d) xs)
           = filter (\<lambda>k. case p_done p of None \<Rightarrow> True | Some d \<Rightarrow> k_done k = Some d) xs"
    by (cases "p_done p") auto
  show ?thesis
    unfolding applyFilters_def Let_def s a d passes_def
    by (simp add: conj_commute conj_left_commute)
qed

lemma passes_no_filter:
  "p_search p = None \<Longrightarrow> p_archived p = None \<Longrightarrow> p_done p = None \<Longrightarrow> passes toLowerCase p k"
  by (simp add: passes_def)

lemma readCards_direct:
  "supplied (p_stackId p) = Some stackId \<Longrightarrow>
   readCards toLowerCase c r p = bind_io (getCards c r stackId) (\<lambda>cards. return_io (PCards cards))"
  by (simp add: readCards_def)

lemma getStacks_stacksOf:
  "stacksOf c r boardId = Some stacks \<Longrightarrow>
   getStacks c r boardId =
     ([api_call c ''GET'' (''/boards/'' @ show_int boardId @ ''/stacks'') None], Inr (PStacks stacks))"
proof -
  assume a: "stacksOf c r boardId = Some stacks"
  have "fst (getStacks c r boardId) = [api_call c ''GET'' (''/boards/'' @ show_int boardId @ ''/stacks'') None]"
    by (simp add: getStacks_def)
  moreover have "snd (getStacks c r boardId) = Inr (PStacks stacks)"
    using a by (auto simp add: stacksOf_def split: sum.splits payload.splits)
  ultimately show ?thesis
    by (cases "getStacks c r boardId") simp
qed

lemma readCards_board_wide:
  assumes "supplied (p_stackId p) = None" and "supplied (p_boardId p) = Some boardId"
    and "stacksOf c r boardId = Some stacks"
    and "list_all (\<lambda>s. cardsOf c r (s_id s) \<noteq> None) stacks"
  shows "readCards toLowerCase c r p =
     (api_call c ''GET'' (''/boards/'' @ show_int boardId @ ''/stacks'') None
        # map (\<lambda>s. api_call c ''GET'' (''/stacks/'' @ show_int (s_id s)) None) stacks,
      Inr (PCards (filter (passes toLowerCase p) (allCardsOf c r stacks))))"
  using assms
  by (simp add: readCards_def getStacks_stacksOf collectCards_all applyFilters_passes return_io_def)

text \<open>
  Claim C5, as the code has it.  A card read with no stack id (absent or zero) and a
  non-zero \<open>boardId\<close> fetches the stack list of the board and then the cards of every
  stack, in order; when all these fetches are served, the result is the concatenation of
  the card lists restricted to the cards that pass the filters (\<open>passes\<close>):
  \<open>toLowerCase\<close> of the title, or of the description when there is one, includes
  \<open>toLowerCase\<close> of \<open>search\<close>, when \<open>search\<close> is given and not empty;
  \<open>archived\<close> equals the given flag and \<open>done\<close> equals the given flag, each
  when the parameter is given.  With no filter the result is the whole concatenation.
  All fetches are made before any filtering.  This holds whatever function
  \<open>toLowerCase\<close> is, so for the library's.
\<close>

theorem board_wide_read_filters_after_assembly:
  "supplied (p_stackId p) = None \<and> p_boardId p = Some boardId \<and> boardId \<noteq> 0
   \<and> stacksOf c r boardId = Some stacks \<and> list_all (\<lambda>s. cardsOf c r (s_id s) \<noteq> None) stacks
   \<longrightarrow>
     handleDeckRead toLowerCase c r \<lparr> rd_entity = ''cards'', rd_params = Some p \<rparr> =
       (api_call c ''GET'' (''/boards/'' @ show_int boardId @ ''/stacks'') None
          # map (\<lambda>s. api_call c ''GET'' (''/stacks/'' @ show_int (s_id s)) None) stacks,
        Inr (PCards (filter (passes toLowerCase p) (allCardsOf c r stacks))))
     \<and> (p_search p = None \<and> p_archived p = None \<and> p_done p = None \<longrightarrow>
          snd (handleDeckRead toLowerCase c r \<lparr> rd_entity = ''cards'', rd_params = Some p \<rparr>)
            = Inr (PCards (allCardsOf c r stacks)))"
proof (intro impI, elim conjE)
  assume a: "supplied (p_stackId p) = None" "p_boardId p = Some boardId" "boardId \<noteq> 0"
    "stacksOf c r boardId = Some stacks" "list_all (\<lambda>s. cardsOf c r (s_id s) \<noteq> None) stacks"
  have b: "supplied (p_boardId p) = Some boardId"
    using a(2,3) by (simp add: supplied_def)
  have h: "handleDeckRead toLowerCase c r \<lparr> rd_entity = ''cards'', rd_params = Some p \<rparr> = readCards toLowerCase c r p"
    by (simp add: handleDeckRead_def read_params_def)
  have n: "p_search p = None \<and> p_archived p = None \<and> p_done p = None \<longrightarrow>
          filter (passes toLowerCase p) (allCardsOf c r stacks) = allCardsOf c r stacks"
    by (simp add: passes_no_filter)
  show "handleDeckRead toLowerCase c r \<lparr> rd_entity = ''cards'', rd_params = Some p \<rparr> =
       (api_call c ''GET'' (''/boards/'' @ show_int boardId @ ''/stacks'') None
          # map (\<lambda>s. api_call c ''GET'' (''/stacks/'' @ show_int (s_id s)) None) stacks,
        Inr (PCards (filter (passes toLowerCase p) (allCardsOf c r stacks))))
     \<and> (p_search p = None \<and> p_archived p = None \<and> p_done p = None \<longrightarrow>
          snd (handleDeckRead toLowerCase c r \<lparr> rd_entity = ''cards'', rd_params = Some p \<rparr>)
            = Inr (PCards (allCardsOf c r stacks)))"
    using n by (simp add: h readCards_board_wide [OF a(1) b a(4) a(5)])
qed

text \<open>
  Claim C10, as the code has it.  A card read whose \<open>stackId\<close> is given and not zero
  is \<open>getCards(stackId)\<close> and nothing else: one GET on \<open>/stacks/{stackId}\<close>, whose
  cards are returned as they are.  The parameters \<open>boardId\<close>, \<open>search\<close>, \<open>archived\<close>
  and \<open>done\<close> do not change the call or the result.
\<close>

theorem direct_fetch_ignores_filters:
  "p_stackId p = Some stackId \<and> stackId \<noteq> 0 \<longrightarrow>
     handleDeckRead toLowerCase c r \<lparr> rd_entity = ''cards'', rd_params = Some p \<rparr>
       = bind_io (getCards c r stackId) (\<lambda>cards. return_io (PCards cards))
     \<and> handleDeckRead toLowerCase c r \<lparr> rd_entity = ''cards'',
          rd_params = Some (p\<lparr> p_boardId := b, p_search := q, p_archived := a, p_done := d \<rparr>) \<rparr>
       = handleDeckRead toLowerCase c r \<lparr> rd_entity = ''cards'', rd_params = Some p \<rparr>
     \<and> (r (api_call c ''GET'' (''/stacks/'' @ show_int stackId) None) = Some resp \<and> ok resp
          \<and> r_json resp = Some (PStack s) \<longrightarrow>
        handleDeckRead toLowerCase c r \<lparr> rd_entity = ''cards'', rd_params = Some p \<rparr>
          = ([api_call c ''GET'' (''/stacks/'' @ show_int stackId) None],
             Inr (PCards (case s_cards s of None \<Rightarrow> [] | Some cs \<Rightarrow> cs))))"
proof (intro impI, elim conjE)
  assume a: "p_stackId p = Some stackId" "stackId \<noteq> 0"
  have s: "supplied (p_stackId p) = Some stackId"
    using a by (simp add: supplied_def)
  have s': "supplied (p_stackId (p\<lparr> p_boardId := b, p_search := q, p_archived := a, p_done := d \<rparr>)) = Some stackId"
    using a by (simp add: supplied_def)
  have h: "\<And>p. handleDeckRead toLowerCase c r \<lparr> rd_entity = ''cards'', rd_params = Some p \<rparr> = readCards toLowerCase c r p"
    by (simp add: handleDeckRead_def read_params_def)
  show "handleDeckRead toLowerCase c r \<lparr> rd_entity = ''cards'', rd_params = Some p \<rparr>
       = bind_io (getCards c r stackId) (\<lambda>cards. return_io (PCards cards))
     \<and> handleDeckRead toLowerCase c r \<lparr> rd_entity = ''cards'',
          rd_params = Some (p\<lparr> p_boardId := b, p_search := q, p_archived := a, p_done := d \<rparr>) \<rparr>
       = handleDeckRead toLowerCase c r \<lparr> rd_entity = ''cards'', rd_params = Some p \<rparr>
     \<and> (r (api_call c ''GET'' (''/stacks/'' @ show_int stackId) None) = Some resp \<and> ok resp
          \<and> r_json resp = Some (PStack s) \<longrightarrow>
        handleDeckRead toLowerCase c r \<lparr> rd_entity = ''cards'', rd_params = Some p \<rparr>
          = ([api_call c ''GET'' (''/stacks/'' @ show_int stackId) None],
             Inr (PCards (case s_cards s of None \<Rightarrow> [] | Some cs \<Rightarrow> cs))))"
    by (simp add: h readCards_direct [OF s] readCards_direct [OF s'] getCards_served return_io_def)
qed

theorem board_wide_read_filters_after_assembly_witness:
  "handleDeckRead ascii_lower ex_client ex_remote
     \<lparr> rd_entity = ''cards'',
       rd_params = Some (no_params \<lparr> p_boardId := Some 2, p_search := Some ''URGENT'', p_archived := Some False \<rparr>) \<rparr>
     = ([api_call ex_client ''GET'' ''/boards/2/stacks'' None,
         api_call ex_client ''GET'' ''/stacks/21'' None,
         api_call ex_client ''GET'' ''/stacks/22'' None],
        Inr (PCards [card42]))
   \<and> snd (handleDeckRead ascii_lower ex_client ex_remote
            \<lparr> rd_entity = ''cards'',
              rd_params = Some (no_params \<lparr> p_boardId := Some 2, p_search := Some ''debug LOG'' \<rparr>) \<rparr>)
     = Inr (PCards [card200])
   \<and> snd (handleDeckRead ascii_lower ex_client ex_remote
            \<lparr> rd_entity = ''cards'',
              rd_params = Some (no_params \<lparr> p_boardId := Some 2, p_search := Some ''bug'' \<rparr>) \<rparr>)
     = Inr (PCards [card200, card42])
   \<and> snd (handleDeckRead ascii_lower ex_client ex_remote
            \<lparr> rd_entity = ''cards'',
              rd_params = Some (no_params \<lparr> p_boardId := Some 2, p_done := Some False \<rparr>) \<rparr>)
     = Inr (PCards [card200])
   \<and> snd (handleDeckRead ascii_lower ex_client ex_remote
            \<lparr> rd_entity = ''cards'', rd_params = Some (no_params \<lparr> p_boardId := Some 2 \<rparr>) \<rparr>)
     = Inr (PCards [card200, card42])"
  using board_wide_read_filters_after_assembly [where
      p = "no_params \<lparr> p_boardId := Some 2, p_search := Some ''URGENT'', p_archived := Some False \<rparr>"
      and boardId = 2 and toLowerCase = ascii_lower and c = ex_client and r = ex_remote
      and stacks = "[stack21, stack22]"]
    board_wide_read_filters_after_assembly [where
      p = "no_params \<lparr> p_boardId := Some 2, p_search := Some ''debug LOG'' \<rparr>"
      and boardId = 2 and toLowerCase = ascii_lower and c = ex_client and r = ex_remote
      and stacks = "[stack21, stack22]"]
    board_wide_read_filters_after_assembly [where
      p = "no_params \<lparr> p_boardId := Some 2, p_search := Some ''bug'' \<rparr>"
      and boardId = 2 and toLowerCase = ascii_lower and c = ex_client and r = ex_remote
      and stacks = "[stack21, stack22]"]
    board_wide_read_filters_after_assembly [where
      p = "no_params \<lparr> p_boardId := Some 2, p_done := Some False \<rparr>"
      and boardId = 2 and toLowerCase = ascii_lower and c = ex_client and r = ex_remote
      and stacks = "[stack21, stack22]"]
    board_wide_read_filters_after_assembly [where
      p = "no_params \<lparr> p_boardId := Some 2 \<rparr>"
      and boardId = 2 and toLowerCase = ascii_lower and c = ex_client and r = ex_remote
      and stacks = "[stack21, stack22]"]
  by (simp add: no_params_def supplied_def stacksOf_def cardsOf_def allCardsOf_def client_defs
        ex_defs show_defs passes_def searchFilter_def ascii_lower_def ascii_lower_char_def
        return_io_def)

text \<open>
  Claim C5 as stated fails for the board id 0: the id is supplied and the stack id is
  absent, the remote system serves the stacks of board 0 and their cards, and the read
  fails with a \<open>MissingParameter\<close> error without a fetch.
\<close>

theorem board_zero_read_fails:
  "handleDeckRead ascii_lower ex_client zero_remote
     \<lparr> rd_entity = ''cards'', rd_params = Some (no_params \<lparr> p_boardId := Some 0 \<rparr>) \<rparr>
     = ([], Inl (MissingParameter ''Either stackId or boardId is required to get cards''))
   \<and> stacksOf ex_client zero_remote 0 = Some [stack22]
   \<and> cardsOf ex_client zero_remote 22 = Some [card42]"
  by (simp add: handleDeckRead_def read_params_def readCards_def no_params_def supplied_def
        stacksOf_def cardsOf_def client_defs ex_defs show_defs return_io_def throw_def)

theorem direct_fetch_ignores_filters_witness:
  "handleDeckRead ascii_lower ex_client ex_remote
     \<lparr> rd_entity = ''cards'',
       rd_params = Some (no_params \<lparr> p_stackId := Some 22, p_boardId := Some 1, p_search := Some ''zzz'',
                                  p_archived := Some True \<rparr>) \<rparr>
     = ([api_call ex_client ''GET'' ''/stacks/22'' None], Inr (PCards [card42]))"
  using direct_fetch_ignores_filters [where
      p = "no_params \<lparr> p_stackId := Some 22, p_boardId := Some 1, p_search := Some ''zzz'', p_archived := Some True \<rparr>"
      and stackId = 22 and toLowerCase = ascii_lower and c = ex_client and r = ex_remote
      and b = None and q = None and a = None and d = None
      and resp = "\<lparr> r_status = 200, r_text = [], r_json = Some (PStack stack22) \<rparr>" and s = stack22]
  by (auto simp add: no_params_def api_call_def ok_def ex_defs show_defs)

text \<open>
  Claim C10 as stated fails for the stack id 0: the id is supplied, the remote system
  serves the cards of stack 0, and the read is the board-wide one over board 1, with the
  \<open>search\<close> filter applied.
\<close>

theorem stack_zero_read_is_board_wide:
  "handleDeckRead ascii_lower ex_client ex_remote
     \<lparr> rd_entity = ''cards'',
       rd_params = Some (no_params \<lparr> p_stackId := Some 0, p_boardId := Some 1, p_search := Some ''zzz'' \<rparr>) \<rparr>
     = ([api_call ex_client ''GET'' ''/boards/1/stacks'' None,
         api_call ex_client ''GET'' ''/stacks/11'' None],
        Inr (PCards []))
   \<and> getCards ex_client ex_remote 0 = ([api_call ex_client ''GET'' ''/stacks/0'' None], Inr [card100])"
  by (simp add: handleDeckRead_def read_params_def readCards_def no_params_def supplied_def
        applyFilters_def searchFilter_def ascii_lower_def ascii_lower_char_def
        client_defs ex_defs show_defs return_io_def throw_def)

section \<open>Looking up the board and the stack of a card\<close>

lemma fst_getStacks [simp]:
  "fst (getStacks c r boardId) = [api_call c ''GET'' (''/boards/'' @ show_int boardId @ ''/stacks'') None]"
  by (simp add: getStacks_def)

lemma fst_getBoards [simp]: "fst (getBoards c r) = [api_call c ''GET'' ''/boards'' None]"
  by (simp add: getBoards_def)

lemma findInStacks_none:
  "list_all (\<lambda>s. \<not> holdsCard cardId s) stacks \<Longrightarrow> findInStacks cardId bid stacks vars = vars"
  by (induction stacks) simp_all

lemma findInStacks_first:
  "list_all (\<lambda>s. \<not> holdsCard cardId s) before \<Longrightarrow> holdsCard cardId s \<Longrightarrow>
   findInStacks cardId bid (before @ s # after) vars = (JNum bid, JNum (s_id s))"
  by (induction before) simp_all

lemma findInBoards_step:
  "stacksOf c r (b_id board) = Some stacks \<Longrightarrow>
   findInBoards c r cardId (board # boards) vars =
     (let vars' = findInStacks cardId (b_id board) stacks vars
      in if truthy (fst vars') \<and> truthy (snd vars')
         then ([api_call c ''GET'' (''/boards/'' @ show_int (b_id board) @ ''/stacks'') None], Inr vars')
         else (api_call c ''GET'' (''/boards/'' @ show_int (b_id board) @ ''/stacks'') None
                 # fst (findInBoards c r cardId boards vars'),
               snd (findInBoards c r cardId boards vars')))"
  by (simp add: getStacks_stacksOf Let_def return_io_def)

lemma findInBoards_without:
  "list_all (boardWithout c r cardId) boards \<Longrightarrow> \<not> (truthy (fst vars) \<and> truthy (snd vars)) \<Longrightarrow>
   findInBoards c r cardId (boards @ rest) vars =
     (map (\<lambda>b. api_call c ''GET'' (''/boards/'' @ show_int (b_id b) @ ''/stacks'') None) boards
        @ fst (findInBoards c r cardId rest vars),
      snd (findInBoards c r cardId rest vars))"
proof (induction boards)
  case Nil
  show ?case by simp
next
  case (Cons b boards)
  from Cons.prems(1) obtain stacks where
    st: "stacksOf c r (b_id b) = Some stacks" and no: "list_all (\<lambda>s. \<not> holdsCard cardId s) stacks"
    by (auto simp add: boardWithout_def split: option.splits)
  from Cons.prems(1) have rest: "list_all (boardWithout c r cardId) boards"
    by simp
  have same: "findInStacks cardId (b_id b) stacks vars = vars"
    using no by (rule findInStacks_none)
  show ?case
    using findInBoards_step [OF st, of cardId "boards @ rest" vars] Cons.IH [OF rest Cons.prems(2)]
      Cons.prems(2)
    by (simp add: same Let_def)
qed

lemma findInBoards_found:
  assumes "list_all (boardWithout c r cardId) before"
    and "stacksOf c r (b_id board) = Some (sbefore @ s # safter)"
    and "list_all (\<lambda>s. \<not> holdsCard cardId s) sbefore" and "holdsCard cardId s"
    and "b_id board \<noteq> 0" and "s_id s \<noteq> 0"
    and "\<not> (truthy (fst vars) \<and> truthy (snd vars))"
  shows "findInBoards c r cardId (before @ board # after) vars =
     (map (\<lambda>b. api_call c ''GET'' (''/boards/'' @ show_int (b_id b) @ ''/stacks'') None) (before @ [board]),
      Inr (JNum (b_id board), JNum (s_id s)))"
proof -
  have hit: "findInStacks cardId (b_id board) (sbefore @ s # safter) vars = (JNum (b_id board), JNum (s_id s))"
    using assms(3,4) by (rule findInStacks_first)
  have "findInBoards c r cardId (board # after) vars =
          ([api_call c ''GET'' (''/boards/'' @ show_int (b_id board) @ ''/stacks'') None],
           Inr (JNum (b_id board), JNum (s_id s)))"
    using findInBoards_step [OF assms(2), of cardId after vars] assms(5,6)
    by (simp add: hit Let_def)
  then show ?thesis
    using findInBoards_without [OF assms(1) assms(7), of "board # after"] by simp
qed

lemma findInBoards_exhausted:
  assumes "list_all (boardWithout c r cardId) boards"
    and "\<not> (truthy (fst vars) \<and> truthy (snd vars))"
  shows "findInBoards c r cardId boards vars =
     (map (\<lambda>b. api_call c ''GET'' (''/boards/'' @ show_int (b_id b) @ ''/stacks'') None) boards, Inr vars)"
  using findInBoards_without [OF assms, of "[]"] by (simp add: return_io_def)

lemma getBoards_served:
  "snd (getBoards c r) = Inr p \<Longrightarrow> getBoards c r = ([api_call c ''GET'' ''/boards'' None], Inr p)"
  using fst_getBoards [of c r] by (cases "getBoards c r") simp

text \<open>
  Claim C3, as the code has it.  The lookup fetches the board list and then the stack list
  of each board in the order of the list.  When the first board with a stack that holds
  the card, and the first such stack of it, have non-zero ids, the lookup returns that
  pair and has fetched the stack lists of the boards up to that board and of no other.
  When no stack of any board holds the card, it has fetched every stack list and fails
  with \<open>Card ... not found in any board\<close>.  (The loop is left by
  \<open>if (boardId && stackId) break\<close>, which a zero id does not pass.)
\<close>

theorem resolveCard_first_match:
  "(snd (getBoards c r) = Inr (PBoards (before @ board # after))
    \<and> list_all (boardWithout c r cardId) before
    \<and> stacksOf c r (b_id board) = Some (sbefore @ s # safter)
    \<and> list_all (\<lambda>s. \<not> holdsCard cardId s) sbefore \<and> holdsCard cardId s
    \<and> b_id board \<noteq> 0 \<and> s_id s \<noteq> 0
    \<and> \<not> (truthy (fst vars) \<and> truthy (snd vars))
    \<longrightarrow>
      resolveCard c r cardId vars =
        (api_call c ''GET'' ''/boards'' None
           # map (\<lambda>b. api_call c ''GET'' (''/boards/'' @ show_int (b_id b) @ ''/stacks'') None)
               (before @ [board]),
         Inr (JNum (b_id board), JNum (s_id s))))
   \<and> (snd (getBoards c r) = Inr (PBoards boards)
      \<and> list_all (boardWithout c r cardId) boards
      \<and> \<not> (truthy (fst vars) \<and> truthy (snd vars))
      \<longrightarrow>
      resolveCard c r cardId vars =
        (api_call c ''GET'' ''/boards'' None
           # map (\<lambda>b. api_call c ''GET'' (''/boards/'' @ show_int (b_id b) @ ''/stacks'') None) boards,
         Inl (NotFound (''Card '' @ template cardId @ '' not found in any board''))))"
proof (intro conjI impI; elim conjE)
  assume a: "snd (getBoards c r) = Inr (PBoards (before @ board # after))"
    "list_all (boardWithout c r cardId) before"
    "stacksOf c r (b_id board) = Some (sbefore @ s # safter)"
    "list_all (\<lambda>s. \<not> holdsCard cardId s) sbefore" "holdsCard cardId s"
    "b_id board \<noteq> 0" "s_id s \<noteq> 0" "\<not> (truthy (fst vars) \<and> truthy (snd vars))"
  show "resolveCard c r cardId vars =
        (api_call c ''GET'' ''/boards'' None
           # map (\<lambda>b. api_call c ''GET'' (''/boards/'' @ show_int (b_id b) @ ''/stacks'') None)
               (before @ [board]),
         Inr (JNum (b_id board), JNum (s_id s)))"
    using a(6,7)
    by (simp add: resolveCard_def getBoards_served [OF a(1)]
          findInBoards_found [OF a(2) a(3) a(4) a(5) a(6) a(7) a(8)] return_io_def)
next
  assume a: "snd (getBoards c r) = Inr (PBoards boards)" "list_all (boardWithout c r cardId) boards"
    "\<not> (truthy (fst vars) \<and> truthy (snd vars))"
  show "resolveCard c r cardId vars =
        (api_call c ''GET'' ''/boards'' None
           # map (\<lambda>b. api_call c ''GET'' (''/boards/'' @ show_int (b_id b) @ ''/stacks'') None) boards,
         Inl (NotFound (''Card '' @ template cardId @ '' not found in any board'')))"
    using a(3)
    by (auto simp add: resolveCard_def getBoards_served [OF a(1)]
          findInBoards_exhausted [OF a(2) a(3)] throw_def)
qed

theorem resolveCard_first_match_witness:
  "resolveCard ex_client ex_remote (JNum 42) (JUndefined, JUndefined) =
     ([api_call ex_client ''GET'' ''/boards'' None,
       api_call ex_client ''GET'' ''/boards/1/stacks'' None,
       api_call ex_client ''GET'' ''/boards/2/stacks'' None],
      Inr (JNum 2, JNum 22))
   \<and> resolveCard ex_client ex_remote (JNum 7) (JUndefined, JUndefined) =
     ([api_call ex_client ''GET'' ''/boards'' None,
       api_call ex_client ''GET'' ''/boards/1/stacks'' None,
       api_call ex_client ''GET'' ''/boards/2/stacks'' None],
      Inl (NotFound ''Card 7 not found in any board''))"
  using resolveCard_first_match [where c = ex_client and r = ex_remote and cardId = "JNum 42"
      and before = "[board1]" and board = board2 and after = "[]"
      and sbefore = "[stack21]" and s = stack22 and safter = "[]"
      and vars = "(JUndefined, JUndefined)" and boards = "[board1, board2]"]
    resolveCard_first_match [where c = ex_client and r = ex_remote and cardId = "JNum 7"
      and before = "[board1]" and board = board2 and after = "[]"
      and sbefore = "[stack21]" and s = stack22 and safter = "[]"
      and vars = "(JUndefined, JUndefined)" and boards = "[board1, board2]"]
  by (simp add: boardWithout_def stacksOf_def holdsCard_def client_defs ex_defs show_defs)

text \<open>
  Claim C3 as stated fails when the board that holds the card has the id 0: card 42 lies
  in the only stack of board 0, the first board, and the lookup goes on to fetch the
  stacks of board 1 and ends with \<open>Card 42 not found in any board\<close>.
\<close>

theorem zero_board_id_defeats_lookup:
  "snd (getBoards ex_client zero_remote) = Inr (PBoards [board0, board1])
   \<and> stacksOf ex_client zero_remote (b_id board0) = Some [stack22]
   \<and> holdsCard (JNum 42) stack22
   \<and> resolveCard ex_client zero_remote (JNum 42) (JUndefined, JUndefined) =
       ([api_call ex_client ''GET'' ''/boards'' None,
         api_call ex_client ''GET'' ''/boards/0/stacks'' None,
         api_call ex_client ''GET'' ''/boards/1/stacks'' None],
        Inl (NotFound ''Card 42 not found in any board''))
   \<and> snd (handleDeckDelete ex_client zero_remote
             \<lparr> de_entity = ''card'', de_id = 42, de_boardId = None, de_cardId = None \<rparr>)
       = Inl (NotFound ''Card 42 not found in any board'')"
  by (simp add: handleDeckDelete_def deleteCard_def of_num_def resolveCard_def stacksOf_def holdsCard_def
        client_defs ex_defs show_defs return_io_def throw_def)

section \<open>No write before the lookup has succeeded\<close>

lemma request_fails_iff: "isl (snd (request c r m e b)) = fetch_fails r (api_call c m e b)"
  by (simp add: request_def fetch_fails_def split: option.splits)

lemma findInBoards_gets:
  "list_all (\<lambda>cl. c_method cl = ''GET'') (fst (findInBoards c r cardId boards vars))"
proof (induction boards arbitrary: vars)
  case Nil
  show ?case by (simp add: return_io_def)
next
  case (Cons b boards)
  show ?case
    using Cons.IH
    by (simp add: fst_bind_io return_io_def throw_def Let_def api_call_def
          split: sum.splits payload.splits)
qed

lemma findInBoards_fails:
  "list_ex (fetch_fails r) (fst (findInBoards c r cardId boards vars)) \<Longrightarrow>
   isl (snd (findInBoards c r cardId boards vars))"
proof (induction boards arbitrary: vars)
  case Nil
  then show ?case by (simp add: return_io_def)
next
  case (Cons b boards)
  show ?case
  proof (cases "snd (getStacks c r (b_id b))")
    case (Inl e)
    then show ?thesis by (simp add: snd_bind_io)
  next
    case (Inr p)
    then have ok: "\<not> fetch_fails r (api_call c ''GET'' (''/boards/'' @ show_int (b_id b) @ ''/stacks'') None)"
      using request_fails_iff [of c r "''GET''" "''/boards/'' @ show_int (b_id b) @ ''/stacks''" None]
      by (simp add: getStacks_def)
    show ?thesis
    proof (cases p)
      case (PStacks stacks)
      show ?thesis
        using Cons.prems Cons.IH [of "findInStacks cardId (b_id b) stacks vars"] Inr ok PStacks
        by (simp add: fst_bind_io snd_bind_io return_io_def Let_def split: if_splits)
    qed (use Inr in \<open>simp_all add: snd_bind_io throw_def\<close>)
  qed
qed

lemma resolveCard_gets:
  "list_all (\<lambda>cl. c_method cl = ''GET'') (fst (resolveCard c r cardId vars))"
  using findInBoards_gets [of c r cardId _ vars]
  by (auto simp add: resolveCard_def fst_bind_io return_io_def throw_def api_call_def
        split: sum.splits payload.splits)

lemma resolveCard_fails:
  "list_ex (fetch_fails r) (fst (resolveCard c r cardId vars)) \<Longrightarrow> isl (snd (resolveCard c r cardId vars))"
proof (cases "snd (getBoards c r)")
  case (Inl e)
  then show ?thesis by (simp add: resolveCard_def snd_bind_io)
next
  case (Inr p)
  assume f: "list_ex (fetch_fails r) (fst (resolveCard c r cardId vars))"
  have ok: "\<not> fetch_fails r (api_call c ''GET'' ''/boards'' None)"
    using Inr request_fails_iff [of c r "''GET''" "''/boards''" None] by (simp add: getBoards_def)
  show ?thesis
  proof (cases p)
    case (PBoards boards)
    show ?thesis
      using f Inr ok PBoards findInBoards_fails [of r c cardId boards vars]
      by (auto simp add: resolveCard_def fst_bind_io snd_bind_io return_io_def throw_def
            split: sum.splits if_splits)
  qed (use Inr in \<open>simp_all add: resolveCard_def snd_bind_io throw_def\<close>)
qed

lemma findBoardOfStack_gets:
  "list_all (\<lambda>cl. c_method cl = ''GET'') (fst (findBoardOfStack c r stackId boards boardId))"
proof (induction boards)
  case Nil
  show ?case by (simp add: return_io_def)
next
  case (Cons b boards)
  show ?case
    using Cons.IH
    by (simp add: fst_bind_io return_io_def throw_def api_call_def
          split: sum.splits payload.splits option.splits)
qed

lemma findBoardOfStack_fails:
  "list_ex (fetch_fails r) (fst (findBoardOfStack c r stackId boards boardId)) \<Longrightarrow>
   isl (snd (findBoardOfStack c r stackId boards boardId))"
proof (induction boards)
  case Nil
  then show ?case by (simp add: return_io_def)
next
  case (Cons b boards)
  show ?case
  proof (cases "snd (getStacks c r (b_id b))")
    case (Inl e)
    then show ?thesis by (simp add: snd_bind_io)
  next
    case (Inr p)
    then have ok: "\<not> fetch_fails r (api_call c ''GET'' (''/boards/'' @ show_int (b_id b) @ ''/stacks'') None)"
      using request_fails_iff [of c r "''GET''" "''/boards/'' @ show_int (b_id b) @ ''/stacks''" None]
      by (simp add: getStacks_def)
    show ?thesis
      using Cons.prems Cons.IH Inr ok
      by (auto simp add: fst_bind_io snd_bind_io return_io_def throw_def
            split: payload.splits option.splits if_splits)
  qed
qed

lemma resolveBoard_gets:
  "list_all (\<lambda>cl. c_method cl = ''GET'') (fst (resolveBoard c r d))"
  using findBoardOfStack_gets [of c r "field d ''stackId''" _ "field d ''boardId''"]
  by (auto simp add: resolveBoard_def fst_bind_io return_io_def throw_def api_call_def
        split: sum.splits payload.splits)

lemma resolveBoard_fails:
  "list_ex (fetch_fails r) (fst (resolveBoard c r d)) \<Longrightarrow> isl (snd (resolveBoard c r d))"
proof (cases "snd (getBoards c r)")
  case (Inl e)
  then show ?thesis by (simp add: resolveBoard_def snd_bind_io)
next
  case (Inr p)
  assume f: "list_ex (fetch_fails r) (fst (resolveBoard c r d))"
  have ok: "\<not> fetch_fails r (api_call c ''GET'' ''/boards'' None)"
    using Inr request_fails_iff [of c r "''GET''" "''/boards''" None] by (simp add: getBoards_def)
  show ?thesis
  proof (cases p)
    case (PBoards boards)
    show ?thesis
      using f Inr ok PBoards
        findBoardOfStack_fails [of r c "field d ''stackId''" boards "field d ''boardId''"]
      by (auto simp add: resolveBoard_def fst_bind_io snd_bind_io return_io_def throw_def
            split: sum.splits if_splits)
  qed (use Inr in \<open>simp_all add: resolveBoard_def snd_bind_io throw_def\<close>)
qed

lemma resolveCard_exhausted:
  assumes "snd (getBoards c r) = Inr (PBoards boards)" and "list_all (boardWithout c r cardId) boards"
    and "\<not> (truthy (fst vars) \<and> truthy (snd vars))"
  shows "resolveCard c r cardId vars =
        (api_call c ''GET'' ''/boards'' None
           # map (\<lambda>b. api_call c ''GET'' (''/boards/'' @ show_int (b_id b) @ ''/stacks'') None) boards,
         Inl (NotFound (''Card '' @ template cardId @ '' not found in any board'')))"
  using assms(3)
  by (auto simp add: resolveCard_def getBoards_served [OF assms(1)]
        findInBoards_exhausted [OF assms(2) assms(3)] throw_def)

lemma findBoardOfStack_exhausted:
  "list_all (boardLacks c r stackId) boards \<Longrightarrow>
   findBoardOfStack c r stackId boards boardId =
     (map (\<lambda>b. api_call c ''GET'' (''/boards/'' @ show_int (b_id b) @ ''/stacks'') None) boards,
      Inr boardId)"
proof (induction boards)
  case Nil
  show ?case by (simp add: return_io_def)
next
  case (Cons b boards)
  from Cons.prems obtain stacks where
    st: "stacksOf c r (b_id b) = Some stacks" and no: "find (\<lambda>s. JNum (s_id s) = stackId) stacks = None"
    by (auto simp add: boardLacks_def split: option.splits)
  from Cons.prems have rest: "list_all (boardLacks c r stackId) boards"
    by simp
  show ?case
    using Cons.IH [OF rest] by (simp add: getStacks_stacksOf [OF st] no)
qed

lemma resolveBoard_exhausted:
  assumes "snd (getBoards c r) = Inr (PBoards boards)"
    and "list_all (boardLacks c r (field d ''stackId'')) boards"
    and "\<not> truthy (field d ''boardId'')"
  shows "resolveBoard c r d =
        (api_call c ''GET'' ''/boards'' None
           # map (\<lambda>b. api_call c ''GET'' (''/boards/'' @ show_int (b_id b) @ ''/stacks'') None) boards,
         Inl (NotFound (''Stack '' @ template (field d ''stackId'') @ '' not found in any board'')))"
  using assms(3)
  by (simp add: resolveBoard_def getBoards_served [OF assms(1)]
        findBoardOfStack_exhausted [OF assms(2)] throw_def)

lemma gets_no_write:
  "list_all (\<lambda>cl. c_method cl = ''GET'') t \<Longrightarrow> list_all (\<lambda>cl. \<not> is_write cl) t"
  by (induction t) (simp_all add: is_write_def)

lemma bind_io_failed: "snd m = Inl e \<Longrightarrow> bind_io m f = (fst m, Inl e)"
  by (simp add: bind_io_def)

lemma field_update_same [simp]: "field (AList.update k v d) k = v"
  by (simp add: field_def update_conv')

lemma field_update_other [simp]: "k' \<noteq> k \<Longrightarrow> field (AList.update k v d) k' = field d k'"
  by (simp add: field_def update_conv')

lemma createCard_failed:
  "\<not> truthy (field d ''boardId'') \<Longrightarrow> snd (resolveBoard c r d) = Inl e \<Longrightarrow>
   handleDeckCreate c r \<lparr> cr_entity = ''card'', cr_data = d \<rparr> = (fst (resolveBoard c r d), Inl e)"
  by (simp add: handleDeckCreate_def createCard_def bind_io_failed)

lemma updateCard_failed:
  "\<not> truthy (field d ''boardId'') \<or> \<not> truthy (field d ''stackId'') \<Longrightarrow>
   snd (resolveCard c r (JNum i) (field d ''boardId'', field d ''stackId'')) = Inl e \<Longrightarrow>
   handleDeckUpdate c r \<lparr> up_entity = ''card'', up_id = i, up_data = d, up_boardId = b \<rparr>
     = (fst (resolveCard c r (JNum i) (field d ''boardId'', field d ''stackId'')), Inl e)"
  by (auto simp add: handleDeckUpdate_def updateCard_def bind_io_failed)

lemma deleteCard_failed:
  "snd (resolveCard c r (JNum i) (JUndefined, JUndefined)) = Inl e \<Longrightarrow>
   handleDeckDelete c r \<lparr> de_entity = ''card'', de_id = i, de_boardId = b, de_cardId = k \<rparr>
     = (fst (resolveCard c r (JNum i) (JUndefined, JUndefined)), Inl e)"
  by (simp add: handleDeckDelete_def deleteCard_def of_num_def bind_io_failed)

text \<open>
  Claim C8.  Creating, updating and deleting a card look up the missing ancestor ids
  first (\<open>resolveBoard\<close>, \<open>resolveCard\<close>).  When the lookup fails, the operation
  fails with the lookup's error, the calls it has sent are those of the lookup, and none
  of them is a write (POST, PUT or DELETE).  The lookup fails whenever one of its fetches
  fails, and it fails with a \<open>NotFound\<close> error when every stack list is served and
  none holds what is looked for.
\<close>

theorem no_write_when_lookup_fails:
  "(\<not> truthy (field d ''boardId'') \<and> snd (resolveBoard c r d) = Inl e \<longrightarrow>
      handleDeckCreate c r \<lparr> cr_entity = ''card'', cr_data = d \<rparr> = (fst (resolveBoard c r d), Inl e)
      \<and> list_all (\<lambda>cl. \<not> is_write cl) (fst (handleDeckCreate c r \<lparr> cr_entity = ''card'', cr_data = d \<rparr>)))
   \<and> ((\<not> truthy (field d ''boardId'') \<or> \<not> truthy (field d ''stackId''))
       \<and> snd (resolveCard c r (JNum i) (field d ''boardId'', field d ''stackId'')) = Inl e \<longrightarrow>
      handleDeckUpdate c r \<lparr> up_entity = ''card'', up_id = i, up_data = d, up_boardId = b \<rparr>
        = (fst (resolveCard c r (JNum i) (field d ''boardId'', field d ''stackId'')), Inl e)
      \<and> list_all (\<lambda>cl. \<not> is_write cl)
           (fst (handleDeckUpdate c r \<lparr> up_entity = ''card'', up_id = i, up_data = d, up_boardId = b \<rparr>)))
   \<and> (snd (resolveCard c r (JNum i) (JUndefined, JUndefined)) = Inl e \<longrightarrow>
      handleDeckDelete c r \<lparr> de_entity = ''card'', de_id = i, de_boardId = b, de_cardId = k \<rparr>
        = (fst (resolveCard c r (JNum i) (JUndefined, JUndefined)), Inl e)
      \<and> list_all (\<lambda>cl. \<not> is_write cl)
           (fst (handleDeckDelete c r \<lparr> de_entity = ''card'', de_id = i, de_boardId = b, de_cardId = k \<rparr>)))
   \<and> (list_ex (fetch_fails r) (fst (resolveBoard c r d)) \<longrightarrow> isl (snd (resolveBoard c r d)))
   \<and> (list_ex (fetch_fails r) (fst (resolveCard c r cardId vars)) \<longrightarrow>
        isl (snd (resolveCard c r cardId vars)))
   \<and> (snd (getBoards c r) = Inr (PBoards boards) \<and> list_all (boardLacks c r (field d ''stackId'')) boards
      \<and> \<not> truthy (field d ''boardId'') \<longrightarrow>
        snd (resolveBoard c r d)
          = Inl (NotFound (''Stack '' @ template (field d ''stackId'') @ '' not found in any board'')))
   \<and> (snd (getBoards c r) = Inr (PBoards boards) \<and> list_all (boardWithout c r cardId) boards
      \<and> \<not> (truthy (fst vars) \<and> truthy (snd vars)) \<longrightarrow>
        snd (resolveCard c r cardId vars)
          = Inl (NotFound (''Card '' @ template cardId @ '' not found in any board'')))"
  using resolveBoard_fails [of r c d] resolveCard_fails [of r c cardId vars]
    resolveBoard_exhausted [of c r boards d] resolveCard_exhausted [of c r boards cardId vars]
    gets_no_write [OF resolveBoard_gets [of c r d]]
    gets_no_write [OF resolveCard_gets [of c r "JNum i" "(field d ''boardId'', field d ''stackId'')"]]
    gets_no_write [OF resolveCard_gets [of c r "JNum i" "(JUndefined, JUndefined)"]]
  by (simp add: createCard_failed updateCard_failed deleteCard_failed)

theorem no_write_when_lookup_fails_witness:
  "handleDeckCreate ex_client flaky_remote
      \<lparr> cr_entity = ''card'', cr_data = [(''title'', JStr ''Buy milk''), (''stackId'', JNum 22)] \<rparr>
     = ([api_call ex_client ''GET'' ''/boards'' None,
         api_call ex_client ''GET'' ''/boards/1/stacks'' None,
         api_call ex_client ''GET'' ''/boards/2/stacks'' None],
        Inl (RemoteError ''Deck API Error (500): Internal Server Error''))
   \<and> handleDeckUpdate ex_client ex_remote
      \<lparr> up_entity = ''card'', up_id = 7, up_data = [(''title'', JStr ''Later'')], up_boardId = None \<rparr>
     = ([api_call ex_client ''GET'' ''/boards'' None,
         api_call ex_client ''GET'' ''/boards/1/stacks'' None,
         api_call ex_client ''GET'' ''/boards/2/stacks'' None],
        Inl (NotFound ''Card 7 not found in any board''))
   \<and> handleDeckDelete ex_client flaky_remote
      \<lparr> de_entity = ''card'', de_id = 42, de_boardId = None, de_cardId = None \<rparr>
     = ([api_call ex_client ''GET'' ''/boards'' None,
         api_call ex_client ''GET'' ''/boards/1/stacks'' None,
         api_call ex_client ''GET'' ''/boards/2/stacks'' None],
        Inl (RemoteError ''Deck API Error (500): Internal Server Error''))
   \<and> list_all (\<lambda>cl. \<not> is_write cl)
        (fst (handleDeckDelete ex_client flaky_remote
                \<lparr> de_entity = ''card'', de_id = 42, de_boardId = None, de_cardId = None \<rparr>))
   \<and> fetch_fails flaky_remote (api_call ex_client ''GET'' ''/boards/2/stacks'' None)"
  using no_write_when_lookup_fails [where c = ex_client and r = flaky_remote
      and d = "[(''title'', JStr ''Buy milk''), (''stackId'', JNum 22)]"
      and e = "RemoteError ''Deck API Error (500): Internal Server Error''"
      and i = 42 and b = None and k = None and cardId = "JNum 42" and vars = "(JUndefined, JUndefined)"
      and boards = "[board1, board2]"]
    no_write_when_lookup_fails [where c = ex_client and r = ex_remote
      and d = "[(''title'', JStr ''Later'')]"
      and e = "NotFound ''Card 7 not found in any board''"
      and i = 7 and b = None and k = None and cardId = "JNum 7" and vars = "(JUndefined, JUndefined)"
      and boards = "[board1, board2]"]
  by (simp add: resolveCard_def resolveBoard_def holdsCard_def field_def fetch_fails_def is_write_def
        flaky_remote_def client_defs ex_defs show_defs return_io_def throw_def)

section \<open>Updating and deleting a card\<close>

lemma omit_update: "k \<in> set ks \<Longrightarrow> omit ks (AList.update k v d) = omit ks d"
  by (induction d) (auto simp add: omit_def)

lemma stringify_omit: "stringify (omit ks d) = omit ks (stringify d)"
  by (induction d) (auto simp add: omit_def stringify_def)

lemma map_of_omit: "map_of (omit ks d) k = (if k \<in> set ks then None else map_of d k)"
  by (induction d) (auto simp add: omit_def)

lemma update_body:
  "c_body (api_call c m e (Some (omit [''cardId'', ''boardId''] (AList.update ''cardId'' v d))))
     = Some (omit [''cardId'', ''boardId''] (stringify d))"
  by (simp add: api_call_def omit_update stringify_omit)

lemma updateCard_supplied:
  "truthy (field d ''boardId'') \<Longrightarrow> truthy (field d ''stackId'') \<Longrightarrow>
   handleDeckUpdate c r \<lparr> up_entity = ''card'', up_id = i, up_data = d, up_boardId = b \<rparr> =
     request c r ''PUT''
       (''/boards/'' @ template (field d ''boardId'') @ ''/stacks/'' @ template (field d ''stackId'')
          @ ''/cards/'' @ show_int i)
       (Some (omit [''cardId'', ''boardId''] (AList.update ''cardId'' (JNum i) d)))"
  by (simp add: handleDeckUpdate_def updateCard_def)

lemma updateCard_resolved:
  "\<not> truthy (field d ''boardId'') \<or> \<not> truthy (field d ''stackId'') \<Longrightarrow>
   resolveCard c r (JNum i) (field d ''boardId'', field d ''stackId'') = (t, Inr (bid, sid)) \<Longrightarrow>
   handleDeckUpdate c r \<lparr> up_entity = ''card'', up_id = i, up_data = d, up_boardId = b \<rparr> =
     (t @ [api_call c ''PUT''
             (''/boards/'' @ template bid @ ''/stacks/'' @ template sid @ ''/cards/'' @ show_int i)
             (Some (omit [''cardId'', ''boardId''] (AList.update ''cardId'' (JNum i) d)))],
      snd (request c r ''PUT''
             (''/boards/'' @ template bid @ ''/stacks/'' @ template sid @ ''/cards/'' @ show_int i)
             (Some (omit [''cardId'', ''boardId''] (AList.update ''cardId'' (JNum i) d)))))"
  by (auto simp add: handleDeckUpdate_def updateCard_def)


text \<open>
  Claim C1, as the code has it.  The update of a card sends one PUT, after the lookup
  when an ancestor id is missing, and its body is the caller's data without the fields
  \<open>cardId\<close> and \<open>boardId\<close> (the rest pattern \<open>{ cardId, boardId: _, ...updateData }\<close>).
  Every other field of the data is forwarded, \<open>stackId\<close> among them when the caller
  gave it; a looked-up stack id, which is not a field of the data, is in the URL only.
\<close>

theorem update_body_keeps_stackId:
  "(truthy (field d ''boardId'') \<and> truthy (field d ''stackId'') \<longrightarrow>
      fst (handleDeckUpdate c r \<lparr> up_entity = ''card'', up_id = i, up_data = d, up_boardId = b \<rparr>)
        = [\<lparr> c_method = ''PUT'',
             c_url = baseUrl c @ ''/index.php/apps/deck/api/v1.0'' @ ''/boards/''
                       @ template (field d ''boardId'') @ ''/stacks/'' @ template (field d ''stackId'')
                       @ ''/cards/'' @ show_int i,
             c_headers = [(''Authorization'', auth c), (''Content-Type'', ''application/json''),
                          (''OCS-APIRequest'', ''true'')],
             c_body = Some (omit [''cardId'', ''boardId''] (stringify d)) \<rparr>])
   \<and> ((\<not> truthy (field d ''boardId'') \<or> \<not> truthy (field d ''stackId''))
       \<and> resolveCard c r (JNum i) (field d ''boardId'', field d ''stackId'') = (t, Inr (bid, sid)) \<longrightarrow>
      fst (handleDeckUpdate c r \<lparr> up_entity = ''card'', up_id = i, up_data = d, up_boardId = b \<rparr>)
        = t @ [\<lparr> c_method = ''PUT'',
                 c_url = baseUrl c @ ''/index.php/apps/deck/api/v1.0'' @ ''/boards/''
                           @ template bid @ ''/stacks/'' @ template sid @ ''/cards/'' @ show_int i,
                 c_headers = [(''Authorization'', auth c), (''Content-Type'', ''application/json''),
                              (''OCS-APIRequest'', ''true'')],
                 c_body = Some (omit [''cardId'', ''boardId''] (stringify d)) \<rparr>]
      \<and> list_all (\<lambda>cl. c_method cl = ''GET'') t)
   \<and> map_of (omit [''cardId'', ''boardId''] (stringify d)) k
       = (if k = ''cardId'' \<or> k = ''boardId'' then None else map_of (stringify d) k)"
proof (intro conjI impI; (elim conjE)?)
  assume "truthy (field d ''boardId'')" "truthy (field d ''stackId'')"
  then show "fst (handleDeckUpdate c r \<lparr> up_entity = ''card'', up_id = i, up_data = d, up_boardId = b \<rparr>)
        = [\<lparr> c_method = ''PUT'',
             c_url = baseUrl c @ ''/index.php/apps/deck/api/v1.0'' @ ''/boards/''
                       @ template (field d ''boardId'') @ ''/stacks/'' @ template (field d ''stackId'')
                       @ ''/cards/'' @ show_int i,
             c_headers = [(''Authorization'', auth c), (''Content-Type'', ''application/json''),
                          (''OCS-APIRequest'', ''true'')],
             c_body = Some (omit [''cardId'', ''boardId''] (stringify d)) \<rparr>]"
    by (simp add: updateCard_supplied api_call_def omit_update stringify_omit)
next
  assume a: "\<not> truthy (field d ''boardId'') \<or> \<not> truthy (field d ''stackId'')"
    "resolveCard c r (JNum i) (field d ''boardId'', field d ''stackId'') = (t, Inr (bid, sid))"
  show "fst (handleDeckUpdate c r \<lparr> up_entity = ''card'', up_id = i, up_data = d, up_boardId = b \<rparr>)
        = t @ [\<lparr> c_method = ''PUT'',
                 c_url = baseUrl c @ ''/index.php/apps/deck/api/v1.0'' @ ''/boards/''
                           @ template bid @ ''/stacks/'' @ template sid @ ''/cards/'' @ show_int i,
                 c_headers = [(''Authorization'', auth c), (''Content-Type'', ''application/json''),
                              (''OCS-APIRequest'', ''true'')],
                 c_body = Some (omit [''cardId'', ''boardId''] (stringify d)) \<rparr>]"
    by (simp add: updateCard_resolved [OF a] api_call_def omit_update stringify_omit)
  show "list_all (\<lambda>cl. c_method cl = ''GET'') t"
    using resolveCard_gets [of c r "JNum i" "(field d ''boardId'', field d ''stackId'')"] a(2)
    by simp
next
  show "map_of (omit [''cardId'', ''boardId''] (stringify d)) k
       = (if k = ''cardId'' \<or> k = ''boardId'' then None else map_of (stringify d) k)"
    by (simp add: map_of_omit)
qed


theorem update_body_keeps_stackId_witness:
  "fst (handleDeckUpdate ex_client ex_remote
          \<lparr> up_entity = ''card'', up_id = 42,
            up_data = [(''title'', JStr ''New title''), (''cardId'', JNum 9)], up_boardId = Some 1 \<rparr>)
     = [api_call ex_client ''GET'' ''/boards'' None,
        api_call ex_client ''GET'' ''/boards/1/stacks'' None,
        api_call ex_client ''GET'' ''/boards/2/stacks'' None,
        \<lparr> c_method = ''PUT'',
          c_url = ''https://nc/index.php/apps/deck/api/v1.0/boards/2/stacks/22/cards/42'',
          c_headers = [(''Authorization'', ''Basic dTpw''), (''Content-Type'', ''application/json''),
                       (''OCS-APIRequest'', ''true'')],
          c_body = Some [(''title'', JStr ''New title'')] \<rparr>]
   \<and> fst (handleDeckUpdate ex_client ex_remote
          \<lparr> up_entity = ''card'', up_id = 42,
            up_data = [(''boardId'', JNum 2), (''stackId'', JNum 22), (''done'', JBool True)],
            up_boardId = None \<rparr>)
     = [\<lparr> c_method = ''PUT'',
          c_url = ''https://nc/index.php/apps/deck/api/v1.0/boards/2/stacks/22/cards/42'',
          c_headers = [(''Authorization'', ''Basic dTpw''), (''Content-Type'', ''application/json''),
                       (''OCS-APIRequest'', ''true'')],
          c_body = Some [(''stackId'', JNum 22), (''done'', JBool True)] \<rparr>]"
  using update_body_keeps_stackId [where c = ex_client and r = ex_remote and i = 42
      and d = "[(''title'', JStr ''New title''), (''cardId'', JNum 9)]" and b = "Some 1"
      and t = "[api_call ex_client ''GET'' ''/boards'' None,
                api_call ex_client ''GET'' ''/boards/1/stacks'' None,
                api_call ex_client ''GET'' ''/boards/2/stacks'' None]"
      and bid = "JNum 2" and sid = "JNum 22" and k = "''stackId''"]
    update_body_keeps_stackId [where c = ex_client and r = ex_remote and i = 42
      and d = "[(''boardId'', JNum 2), (''stackId'', JNum 22), (''done'', JBool True)]" and b = None
      and t = "[]" and bid = "JNum 2" and sid = "JNum 22" and k = "''stackId''"]
  by (simp add: resolveCard_def holdsCard_def field_def omit_def stringify_def
        client_defs ex_defs show_defs return_io_def throw_def)

text \<open>
  Claim C1 as stated fails for a caller-supplied \<open>stackId\<close>: with \<open>boardId\<close>,
  \<open>stackId\<close> and \<open>title\<close> in the data, the body of the PUT holds \<open>stackId\<close> next
  to \<open>title\<close>.
\<close>

theorem update_forwards_stackId:
  "handleDeckUpdate ex_client ex_remote
      \<lparr> up_entity = ''card'', up_id = 42,
        up_data = [(''boardId'', JNum 2), (''stackId'', JNum 22), (''title'', JStr ''New title'')],
        up_boardId = None \<rparr>
     = ([\<lparr> c_method = ''PUT'',
           c_url = ''https://nc/index.php/apps/deck/api/v1.0/boards/2/stacks/22/cards/42'',
           c_headers = [(''Authorization'', ''Basic dTpw''), (''Content-Type'', ''application/json''),
                        (''OCS-APIRequest'', ''true'')],
           c_body = Some [(''stackId'', JNum 22), (''title'', JStr ''New title'')] \<rparr>],
        Inr (PCard card42))"
  by (simp add: handleDeckUpdate_def updateCard_def field_def omit_def stringify_def
        client_defs ex_defs show_defs return_io_def)


end
